theory Spec2Isabelle
  imports Main "HOL-Library.Sublist"
begin

section \<open>JavaScript strings\<close>

text \<open>
  A JavaScript string is modelled by its UTF-8 encoding, a list of 8-bit characters.
  Concatenation, \<^verbatim>\<open>endsWith\<close> and the matching of ASCII patterns are the same on
  the encoding as on the string itself. The regular expressions of the services carry the
  flag \<^verbatim>\<open>i\<close> without \<^verbatim>\<open>u\<close>; there an ASCII letter of the pattern matches its two
  ASCII cases only, so case folding is the ASCII one.
\<close>

definition toLowerAscii :: "char \<Rightarrow> char" where
  "toLowerAscii c =
     (let n = (of_char c :: nat) in if 65 \<le> n \<and> n \<le> 90 then char_of (n + 32) else c)"

text \<open>
  \<^verbatim>\<open>String.prototype.trim\<close> removes the WhiteSpace and LineTerminator code points from
  both ends: U+0009..U+000D and U+0020 (one byte), U+00A0 (two bytes), U+1680,
  U+2000..U+200A, U+2028, U+2029, U+202F, U+205F, U+3000 and U+FEFF (three bytes).
\<close>

definition isWs1 :: "char \<Rightarrow> bool" where
  "isWs1 a = (a \<in> set [CHR 0x09, CHR 0x0A, CHR 0x0B, CHR 0x0C, CHR 0x0D, CHR 0x20])"

definition isWs2 :: "char \<Rightarrow> char \<Rightarrow> bool" where
  "isWs2 a b = (a = CHR 0xC2 \<and> b = CHR 0xA0)"

definition isWs3 :: "char \<Rightarrow> char \<Rightarrow> char \<Rightarrow> bool" where
  "isWs3 a b c =
     ((a = CHR 0xE1 \<and> b = CHR 0x9A \<and> c = CHR 0x80)
    \<or> (a = CHR 0xE2 \<and> b = CHR 0x80 \<and>
         (let n = (of_char c :: nat) in (0x80 \<le> n \<and> n \<le> 0x8A) \<or> n = 0xA8 \<or> n = 0xA9 \<or> n = 0xAF))
    \<or> (a = CHR 0xE2 \<and> b = CHR 0x81 \<and> c = CHR 0x9F)
    \<or> (a = CHR 0xE3 \<and> b = CHR 0x80 \<and> c = CHR 0x80)
    \<or> (a = CHR 0xEF \<and> b = CHR 0xBB \<and> c = CHR 0xBF))"

fun trimStart :: "string \<Rightarrow> string" where
  "trimStart (a # b # c # s) =
     (if isWs1 a then trimStart (b # c # s)
      else if isWs2 a b then trimStart (c # s)
      else if isWs3 a b c then trimStart s
      else a # b # c # s)"
| "trimStart [a, b] =
     (if isWs1 a then trimStart [b] else if isWs2 a b then [] else [a, b])"
| "trimStart [a] = (if isWs1 a then [] else [a])"
| "trimStart [] = []"

text \<open>The same from the end, on the reversed string: the last byte comes first.\<close>

fun trimEndRev :: "string \<Rightarrow> string" where
  "trimEndRev (c # b # a # s) =
     (if isWs1 c then trimEndRev (b # a # s)
      else if isWs2 b c then trimEndRev (a # s)
      else if isWs3 a b c then trimEndRev s
      else c # b # a # s)"
| "trimEndRev [b, a] =
     (if isWs1 b then trimEndRev [a] else if isWs2 a b then [] else [b, a])"
| "trimEndRev [a] = (if isWs1 a then [] else [a])"
| "trimEndRev [] = []"

definition trim :: "string \<Rightarrow> string" where
  "trim s = rev (trimEndRev (rev (trimStart s)))"

text \<open>Truthiness of an optional string: \<^verbatim>\<open>undefined\<close> and the empty string are falsy.\<close>

definition truthy :: "string option \<Rightarrow> bool" where
  "truthy v = (case v of None \<Rightarrow> False | Some s \<Rightarrow> s \<noteq> [])"

text \<open>\<^verbatim>\<open>s.split(',')[1]\<close>: the text between the first and the second comma,
  \<^verbatim>\<open>undefined\<close> when \<open>s\<close> has no comma.\<close>

definition splitComma1 :: "string \<Rightarrow> string option" where
  "splitComma1 s =
     (case dropWhile (\<lambda>c. c \<noteq> CHR '','') s of
        [] \<Rightarrow> None
      | _ # rest \<Rightarrow> Some (takeWhile (\<lambda>c. c \<noteq> CHR '','') rest))"

section \<open>The generative backend (services/geminiService.ts)\<close>

text \<open>
  The response of \<^verbatim>\<open>models.generateContent\<close>, with the fields the services read. Every
  field they read through \<^verbatim>\<open>?.\<close> is optional; \<^verbatim>\<open>response.text\<close> is among them
  (\<^verbatim>\<open>generateImage\<close> reads it as \<^verbatim>\<open>response.text?.trim()\<close>).
\<close>

record SafetyRating =
  category :: string
  probability :: string

record PromptFeedback =
  blockReason :: "string option"
  blockReasonMessage :: "string option"
  safetyRatings :: "SafetyRating list option"

record InlineData =
  mimeType :: "string option"
  data :: "string option"

record Part =
  inlineData :: "InlineData option"
  partText :: "string option"

record Content =
  parts :: "Part list option"

record Candidate =
  content :: "Content option"

record GenerateContentResponse =
  promptFeedback :: "PromptFeedback option"
  candidates :: "Candidate list option"
  responseText :: "string option"

text \<open>The request: the model, the parts sent and the response modalities asked for.\<close>

datatype RequestPart = TextPart string | ImagePart string "string option"

record GenerateContentRequest =
  model :: string
  contents :: "RequestPart list"
  responseModalities :: "string list"

text \<open>
  Every way a service call fails, one constructor for each \<^verbatim>\<open>throw\<close> and each
  exception of the platform:
  \<^item> \<open>MissingGeminiKey\<close>: "Gemini API key is missing." (\<^verbatim>\<open>getAiClient\<close>);
  \<^item> \<open>ApiThrew m\<close>: the call to the backend itself threw, with message \<open>m\<close>;
  \<^item> \<open>TypeError\<close>: a method was called on \<^verbatim>\<open>undefined\<close>;
  \<^item> \<open>BlockedContent r m\<close>: "Image generation failed due to: r." and, when the block
    has a message, " Message: m";
  \<^item> \<open>FilteredContent c\<close>: "Image generation failed. The request was filtered due to
    potential ... content.", from the category \<open>c\<close> of the rating found;
  \<^item> \<open>ApiCallFailed t\<close>: "API call failed: t";
  \<^item> \<open>EmptyResponse\<close>: "API returned an empty response. ...";
  \<^item> \<open>TextInsteadOfImage t\<close>: "API returned text instead of an image: "t"";
  \<^item> \<open>NoImageReturned\<close>: "API did not return an image. ...";
  \<^item> \<open>PromptExtractionFailed\<close>: "Failed to extract a valid design prompt from the AI
    response.".
\<close>

datatype ServiceError =
    MissingGeminiKey
  | ApiThrew string
  | TypeError
  | BlockedContent string "string option"
  | FilteredContent string
  | ApiCallFailed string
  | EmptyResponse
  | TextInsteadOfImage string
  | NoImageReturned
  | PromptExtractionFailed

text \<open>The backend is a parameter: what it answers to a request, or the message it throws.\<close>

type_synonym Backend = "GenerateContentRequest \<Rightarrow> string + GenerateContentResponse"

text \<open>\<^verbatim>\<open>getAiClient\<close>: the client of a key is the backend called with that key.\<close>

definition getAiClient :: "Backend \<Rightarrow> string \<Rightarrow> ServiceError + Backend" where
  "getAiClient backend apiKey = (if apiKey = [] then Inl MissingGeminiKey else Inr backend)"

definition getImagePart :: "string \<Rightarrow> RequestPart" where
  "getImagePart base64Image = ImagePart ''image/png'' (splitComma1 base64Image)"

subsection \<open>analyzeImageColor\<close>

definition colorPrompt :: string where
  "colorPrompt = ''Analyze the image of a product with a graphic on it. Determine the dominant color of the product's material itself, ignoring the colors within the graphic design. Provide only the hex color code for this dominant background color. For example, if it's a black t-shirt with a white logo, you should return #000000. Your response must be only the hex code.''"

definition isHexDigit :: "char \<Rightarrow> bool" where
  "isHexDigit c = (c \<in> set ''0123456789ABCDEFabcdef'')"

text \<open>\<^verbatim>\<open>/^#[0-9A-F]{6}$/i.test(color)\<close>\<close>

definition hexColorRegex :: "string \<Rightarrow> bool" where
  "hexColorRegex color =
     (case color of
        [] \<Rightarrow> False
      | c # ds \<Rightarrow> c = CHR ''#'' \<and> length ds = 6 \<and> list_all isHexDigit ds)"

definition analyzeImageColor :: "Backend \<Rightarrow> string \<Rightarrow> string \<Rightarrow> ServiceError + string" where
  "analyzeImageColor backend apiKey base64Image =
     (case getAiClient backend apiKey of
        Inl e \<Rightarrow> Inl e
      | Inr client \<Rightarrow>
        case client \<lparr> model = ''gemini-2.5-flash'',
                      contents = [TextPart colorPrompt, getImagePart base64Image],
                      responseModalities = [] \<rparr> of
        Inl m \<Rightarrow> Inl (ApiThrew m)
      | Inr response \<Rightarrow>
          (case responseText response of
             None \<Rightarrow> Inl TypeError
           | Some t \<Rightarrow>
               (let color = trim t
                in Inr (if hexColorRegex color then color else ''#F3F4F6''))))"

subsection \<open>extractDesignPrompt (services/designExtractor.ts)\<close>

text \<open>\<open>splitAtFirst pat s\<close> cuts \<open>s\<close> around the first occurrence of \<open>pat\<close>.\<close>

fun splitAtFirst :: "string \<Rightarrow> string \<Rightarrow> (string \<times> string) option" where
  "splitAtFirst pat [] = (if pat = [] then Some ([], []) else None)"
| "splitAtFirst pat (c # s) =
     (if prefix pat (c # s) then Some ([], drop (length pat) (c # s))
      else case splitAtFirst pat s of
             None \<Rightarrow> None
           | Some (before, rest) \<Rightarrow> Some (c # before, rest))"

text \<open>
  A match of \<^verbatim>\<open>/<open>([\s\S]*?)<close>/\<close>: the text before the first opening tag
  that has a closing tag after it, the lazy group between the two, and the text after the
  closing tag. If the first opening tag has no closing tag after it, no later one has.
\<close>

definition matchTagged :: "string \<Rightarrow> string \<Rightarrow> string \<Rightarrow> (string \<times> string \<times> string) option" where
  "matchTagged opening closing s =
     (case splitAtFirst opening s of
        None \<Rightarrow> None
      | Some (before, rest) \<Rightarrow>
          (case splitAtFirst closing rest of
             None \<Rightarrow> None
           | Some (group1, after) \<Rightarrow> Some (before, group1, after)))"

text \<open>
  The system instruction sent with the image is a constant of the source, some seventy
  lines long; the backend is a parameter here, so only its opening sentence is kept.
\<close>

definition SYSTEM_INSTRUCTION :: string where
  "SYSTEM_INSTRUCTION = ''You are a professional design extractor specializing in Google Imagen 4 prompt generation.''"

definition extractDesignPrompt :: "Backend \<Rightarrow> string \<Rightarrow> string \<Rightarrow> ServiceError + string" where
  "extractDesignPrompt backend apiKey base64Image =
     (case getAiClient backend apiKey of
        Inl e \<Rightarrow> Inl e
      | Inr client \<Rightarrow>
        case client \<lparr> model = ''gemini-2.5-flash'',
                      contents = [TextPart SYSTEM_INSTRUCTION, getImagePart base64Image],
                      responseModalities = [] \<rparr> of
        Inl m \<Rightarrow> Inl (ApiThrew m)
      | Inr response \<Rightarrow>
          (case responseText response of
             None \<Rightarrow> Inl TypeError
           | Some t \<Rightarrow>
               (let txt0 = trim t;
                    finalPromptMatch = matchTagged ''<final_prompt>'' ''</final_prompt>'' txt0
                in if (case finalPromptMatch of Some (_, group1, _) \<Rightarrow> group1 \<noteq> [] | None \<Rightarrow> False)
                   then Inr (trim (fst (snd (the finalPromptMatch))))
                   else
                     (let analysisRemoved =
                            trim (case matchTagged ''<analysis>'' ''</analysis>'' txt0 of
                                    None \<Rightarrow> txt0
                                  | Some (before, _, after) \<Rightarrow> before @ after)
                      in if analysisRemoved \<noteq> [] then Inr analysisRemoved
                         else Inl PromptExtractionFailed))))"

subsection \<open>generateImage\<close>

text \<open>\<^verbatim>\<open>response.candidates?.[0]?.content?.parts\<close>\<close>

definition firstCandidateParts :: "GenerateContentResponse \<Rightarrow> Part list option" where
  "firstCandidateParts response =
     (case candidates response of
        None \<Rightarrow> None
      | Some [] \<Rightarrow> None
      | Some (c # _) \<Rightarrow> (case content c of None \<Rightarrow> None | Some ct \<Rightarrow> parts ct))"

text \<open>A template literal prints \<^verbatim>\<open>undefined\<close> for a missing value.\<close>

definition interpolate :: "string option \<Rightarrow> string" where
  "interpolate v = (case v of None \<Rightarrow> ''undefined'' | Some s \<Rightarrow> s)"

text \<open>The checks of \<^verbatim>\<open>generateImage\<close>, each the condition of one \<^verbatim>\<open>if\<close> of the source.\<close>

definition explicitBlock :: "GenerateContentResponse \<Rightarrow> PromptFeedback option" where
  "explicitBlock response =
     (case promptFeedback response of
        None \<Rightarrow> None
      | Some pf \<Rightarrow> if truthy (blockReason pf) then Some pf else None)"

definition harmfulRatingOf :: "GenerateContentResponse \<Rightarrow> SafetyRating option" where
  "harmfulRatingOf response =
     (case promptFeedback response of
        None \<Rightarrow> None
      | Some pf \<Rightarrow>
          (case safetyRatings pf of
             None \<Rightarrow> None
           | Some ratings \<Rightarrow>
               find (\<lambda>rating. probability rating \<in> set [''HIGH'', ''MEDIUM'']) ratings))"

definition generateImage :: "Backend \<Rightarrow> string \<Rightarrow> string \<Rightarrow> string \<Rightarrow> ServiceError + string" where
  "generateImage backend apiKey prompt base64InputImage =
     (case getAiClient backend apiKey of
        Inl e \<Rightarrow> Inl e
      | Inr client \<Rightarrow>
        case client \<lparr> model = ''gemini-2.5-flash-image-preview'',
                      contents = [getImagePart base64InputImage, TextPart prompt],
                      responseModalities = [''IMAGE'', ''TEXT''] \<rparr> of
        Inl m \<Rightarrow> Inl (ApiThrew m)
      | Inr response \<Rightarrow>
          (case explicitBlock response of
             Some pf \<Rightarrow>
               Inl (BlockedContent (the (blockReason pf))
                      (if truthy (blockReasonMessage pf) then blockReasonMessage pf else None))
           | None \<Rightarrow>
          (case harmfulRatingOf response of
             Some harmfulRating \<Rightarrow> Inl (FilteredContent (category harmfulRating))
           | None \<Rightarrow>
          (case firstCandidateParts response of
             None \<Rightarrow>
               (let txt0 = map_option trim (responseText response)
                in if truthy txt0 then Inl (ApiCallFailed (the txt0)) else Inl EmptyResponse)
           | Some [] \<Rightarrow>
               (let txt0 = map_option trim (responseText response)
                in if truthy txt0 then Inl (ApiCallFailed (the txt0)) else Inl EmptyResponse)
           | Some (p # ps) \<Rightarrow>
          (case find (\<lambda>part. inlineData part \<noteq> None) (p # ps) of
             Some imagePart \<Rightarrow>
               Inr (''data:image/png;base64,'' @ interpolate (data (the (inlineData imagePart))))
           | None \<Rightarrow>
               (let textPart = find (\<lambda>part. truthy (partText part)) (p # ps);
                    textResponse = (case textPart of Some q \<Rightarrow> partText q
                                    | None \<Rightarrow> responseText response)
                in if truthy textResponse \<and> trim (the textResponse) \<noteq> []
                   then Inl (TextInsteadOfImage (trim (the textResponse)))
                   else Inl NoImageReturned))))))"

subsection \<open>cloneDesign\<close>

text \<open>
  \<^verbatim>\<open>/( on a solid (black|white) background)$/i\<close>: the pattern has no \<^verbatim>\<open>m\<close> flag, so
  \<^verbatim>\<open>$\<close> is the end of the string, and both alternatives have the same length; a match is
  the last characters of the prompt. The result is the prompt without the match (what
  \<^verbatim>\<open>replace(regex, '')\<close> leaves) and the match itself (\<^verbatim>\<open>match[0]\<close>), in the case it
  has in the prompt.
\<close>

definition backgroundInstructionRegex :: "string \<Rightarrow> (string \<times> string) option" where
  "backgroundInstructionRegex s =
     (let n = length '' on a solid black background'';
          m = drop (length s - n) s
      in if n \<le> length s \<and>
            map toLowerAscii m \<in> set ['' on a solid black background'', '' on a solid white background'']
         then Some (take (length s - n) s, m)
         else None)"

definition endsWith :: "string \<Rightarrow> char \<Rightarrow> bool" where
  "endsWith s c = (s \<noteq> [] \<and> last s = c)"

text \<open>The prompt \<^verbatim>\<open>cloneDesign\<close> sends: lines 203 to 217 of the service.\<close>

definition composeClonePrompt :: "string \<Rightarrow> string option \<Rightarrow> string" where
  "composeClonePrompt extractedPrompt additionalInstructions =
     (if truthy additionalInstructions \<and> length (trim (the additionalInstructions)) > 0
      then
        (case backgroundInstructionRegex extractedPrompt of
           Some (promptWithoutBackground, backgroundInstruction) \<Rightarrow>
             (let separator = (if endsWith promptWithoutBackground (CHR ''.'') then [] else ''.'')
              in promptWithoutBackground @ separator @ '' Additional instructions: ''
                 @ the additionalInstructions @ backgroundInstruction)
         | None \<Rightarrow>
             extractedPrompt @ [CHR 0x0A, CHR 0x0A] @ ''Additional instructions: ''
             @ the additionalInstructions)
      else extractedPrompt)"

definition cloneDesign ::
  "Backend \<Rightarrow> string \<Rightarrow> string \<Rightarrow> string option \<Rightarrow> ServiceError + string" where
  "cloneDesign backend apiKey base64Image additionalInstructions =
     (case extractDesignPrompt backend apiKey base64Image of
        Inl e \<Rightarrow> Inl e
      | Inr extractedPrompt \<Rightarrow>
          generateImage backend apiKey
            (composeClonePrompt extractedPrompt additionalInstructions) base64Image)"

subsection \<open>createMockup\<close>

definition createMockup ::
  "Backend \<Rightarrow> string \<Rightarrow> string \<Rightarrow> string \<Rightarrow> string \<Rightarrow> string option \<Rightarrow> ServiceError + string" where
  "createMockup backend apiKey base64ClonedDesign productPrompt productColorHex additionalInstructions =
     (let finalPrompt =
            ''Take the provided design and create a photorealistic mockup. '' @ productPrompt
            @ ''. IMPORTANT: The main color of the product (e.g., the t-shirt fabric, the mug's ceramic) MUST be the hex color: ''
            @ productColorHex
            @ ''. The design must be placed naturally on the product, conforming to its shape, texture, and lighting. The final image should look like a professional product photograph.''
      in generateImage backend apiKey
           (if truthy additionalInstructions \<and> length (trim (the additionalInstructions)) > 0
            then finalPrompt @ [CHR 0x0A, CHR 0x0A] @ ''ADDITIONAL INSTRUCTIONS: ''
                 @ the additionalInstructions
            else finalPrompt)
           base64ClonedDesign)"

section \<open>Background removal (removeBackground)\<close>

text \<open>
  The browser is a parameter: \<^verbatim>\<open>atob\<close> (the decoded bytes, or the message of the exception
  it throws), \<^verbatim>\<open>fetch\<close> (the response, or the message of the network error) and the
  \<^verbatim>\<open>FileReader\<close> (the data URL of a blob, or nothing when it reports an error).
\<close>

record FetchRequest =
  url :: string
  httpMethod :: string
  xApiKey :: string
  imageFile :: string
  imageFileName :: string
  format :: string

record HttpResponse =
  ok :: bool
  httpStatus :: nat
  body :: string

record Browser =
  atob :: "string \<Rightarrow> string + string"
  fetch :: "FetchRequest \<Rightarrow> string + HttpResponse"
  readAsDataURL :: "string \<Rightarrow> string option"

datatype BackgroundRemovalError =
    MissingPhotoroomKey
  | AtobThrew string
  | FetchThrew string
  | BackendError nat
  | ReaderError

text \<open>What a call leaves behind: the lines written to the console, the requests sent, and
  the value the promise settles with.\<close>

record RemoveBackgroundRun =
  consoleErrors :: "string list"
  requestsSent :: "FetchRequest list"
  settled :: "BackgroundRemovalError + string"

fun showNat :: "nat \<Rightarrow> string" where
  "showNat n =
     (if n < 10 then [char_of (48 + n)] else showNat (n div 10) @ [char_of (48 + n mod 10)])"

text \<open>\<^verbatim>\<open>err.message\<close> of each error; the event a \<^verbatim>\<open>FileReader\<close> rejects with has none.\<close>

fun errorMessage :: "BackgroundRemovalError \<Rightarrow> string option" where
  "errorMessage MissingPhotoroomKey = Some ''Photoroom API key is missing.''"
| "errorMessage (AtobThrew m) = Some m"
| "errorMessage (FetchThrew m) = Some m"
| "errorMessage (BackendError st) = Some (''Background removal failed. Status: '' @ showNat st)"
| "errorMessage ReaderError = None"

text \<open>\<^verbatim>\<open>base64ToBlob\<close>: the bytes \<^verbatim>\<open>atob\<close> decodes from what follows the comma of the
  data URL (from the text "undefined" when there is no comma).\<close>

definition base64ToBlob :: "Browser \<Rightarrow> string \<Rightarrow> string + string" where
  "base64ToBlob browser base64 = atob browser (interpolate (splitComma1 base64))"

definition removeBackground :: "Browser \<Rightarrow> string \<Rightarrow> string \<Rightarrow> RemoveBackgroundRun" where
  "removeBackground browser apiKey base64Image =
     (if apiKey = [] then
        \<lparr> consoleErrors = [], requestsSent = [], settled = Inl MissingPhotoroomKey \<rparr>
      else case base64ToBlob browser base64Image of
        Inl m \<Rightarrow> \<lparr> consoleErrors = [], requestsSent = [], settled = Inl (AtobThrew m) \<rparr>
      | Inr byteCharacters \<Rightarrow>
          (let request = \<lparr> url = ''https://sdk.photoroom.com/v1/segment'', httpMethod = ''POST'',
                            xApiKey = apiKey, imageFile = byteCharacters,
                            imageFileName = ''design.png'', format = ''png'' \<rparr>
           in case fetch browser request of
                Inl m \<Rightarrow>
                  \<lparr> consoleErrors = [], requestsSent = [request], settled = Inl (FetchThrew m) \<rparr>
              | Inr response \<Rightarrow>
                  if \<not> ok response then
                    \<lparr> consoleErrors = [''Photoroom API Error: '' @ body response],
                      requestsSent = [request],
                      settled = Inl (BackendError (httpStatus response)) \<rparr>
                  else
                    \<lparr> consoleErrors = [], requestsSent = [request],
                      settled = (case readAsDataURL browser (body response) of
                                   None \<Rightarrow> Inl ReaderError
                                 | Some dataUrl \<Rightarrow> Inr dataUrl) \<rparr>))"

section \<open>The orchestrator (App.tsx)\<close>

datatype Status = IDLE | PENDING | SUCCESS | FAILED

record ClonedDesign =
  status :: Status
  imageUrl :: "string option"

text \<open>A mockup has the two fields of a staged asset and the product's id and name.\<close>

record Mockup = ClonedDesign +
  mockupId :: string
  mockupName :: string

record ProductDetails =
  title :: string
  description :: string
  tags :: string

text \<open>An entry of the catalogue \<^verbatim>\<open>PRODUCTS\<close> (constants.ts). The catalogue is a parameter
  of the handlers; the ids the user can select are its keys.\<close>

record Product =
  name :: string
  prompt :: string

datatype Mode = cloner | redesign

text \<open>The state of the component: one field for each \<^verbatim>\<open>useState\<close> the handlers touch.\<close>

record AppState =
  uploadedImage :: "string option"
  clonedDesign :: ClonedDesign
  removedBgDesign :: ClonedDesign
  resizedDesign :: ClonedDesign
  mockups :: "Mockup list"
  isLoading :: bool
  loadingMessage :: string
  error :: "string option"
  selectedProducts :: "string list"
  productDetails :: "ProductDetails option"
  additionalInstructions :: string
  mode :: Mode
  geminiApiKey :: string
  photoroomApiKey :: string
  showApiKeys :: bool

text \<open>
  A call of a state setter is an update of the state. A handler is a closure of one
  render: it reads the state of that render (below \<open>r\<close>) wherever it names a state variable,
  also after its own setter calls, and what it does is the list of its setter calls, in
  order. A setter called with a function (\<^verbatim>\<open>setMockups(prev => ...)\<close>) is the only way
  it sees the current state.
\<close>

type_synonym Update = "AppState \<Rightarrow> AppState"

definition setUploadedImage :: "string option \<Rightarrow> Update" where
  "setUploadedImage v s = s\<lparr>uploadedImage := v\<rparr>"

definition setClonedDesign :: "ClonedDesign \<Rightarrow> Update" where
  "setClonedDesign v s = s\<lparr>clonedDesign := v\<rparr>"

definition setRemovedBgDesign :: "ClonedDesign \<Rightarrow> Update" where
  "setRemovedBgDesign v s = s\<lparr>removedBgDesign := v\<rparr>"

definition setResizedDesign :: "ClonedDesign \<Rightarrow> Update" where
  "setResizedDesign v s = s\<lparr>resizedDesign := v\<rparr>"

definition setMockups :: "Mockup list \<Rightarrow> Update" where
  "setMockups v s = s\<lparr>mockups := v\<rparr>"

definition setMockupsWith :: "(Mockup list \<Rightarrow> Mockup list) \<Rightarrow> Update" where
  "setMockupsWith f s = s\<lparr>mockups := f (mockups s)\<rparr>"

definition setIsLoading :: "bool \<Rightarrow> Update" where
  "setIsLoading v s = s\<lparr>isLoading := v\<rparr>"

definition setLoadingMessage :: "string \<Rightarrow> Update" where
  "setLoadingMessage v s = s\<lparr>loadingMessage := v\<rparr>"

definition setError :: "string option \<Rightarrow> Update" where
  "setError v s = s\<lparr>error := v\<rparr>"

definition setProductDetails :: "ProductDetails option \<Rightarrow> Update" where
  "setProductDetails v s = s\<lparr>productDetails := v\<rparr>"

definition setShowApiKeys :: "bool \<Rightarrow> Update" where
  "setShowApiKeys v s = s\<lparr>showApiKeys := v\<rparr>"

text \<open>The state after a list of updates, and every state on the way, the first included.\<close>

definition applyUpdates :: "Update list \<Rightarrow> AppState \<Rightarrow> AppState" where
  "applyUpdates us s = fold (\<lambda>u. u) us s"

fun statesAlong :: "AppState \<Rightarrow> Update list \<Rightarrow> AppState list" where
  "statesAlong s [] = [s]"
| "statesAlong s (u # us) = s # statesAlong (u s) us"

subsection \<open>The state of the first render, processImageFile, handleProductSelect\<close>

text \<open>\<open>keys\<close> is \<^verbatim>\<open>Object.keys(PRODUCTS)\<close>; the two keys are what local storage holds.\<close>

definition initialState :: "string list \<Rightarrow> string \<Rightarrow> string \<Rightarrow> AppState" where
  "initialState keys storedGeminiKey storedPhotoroomKey =
     \<lparr> uploadedImage = None,
       clonedDesign = \<lparr> status = IDLE, imageUrl = None \<rparr>,
       removedBgDesign = \<lparr> status = IDLE, imageUrl = None \<rparr>,
       resizedDesign = \<lparr> status = IDLE, imageUrl = None \<rparr>,
       mockups = [],
       isLoading = False,
       loadingMessage = [],
       error = None,
       selectedProducts = take 4 keys,
       productDetails = None,
       additionalInstructions = [],
       mode = cloner,
       geminiApiKey = storedGeminiKey,
       photoroomApiKey = (if storedPhotoroomKey = []
                          then ''sk_pr_default_a0f75c1bea6776987fcd3790bd047935b9eb5ece''
                          else storedPhotoroomKey),
       showApiKeys = False \<rparr>"

text \<open>\<open>fileType\<close> is \<^verbatim>\<open>file.type\<close>; \<open>base64\<close> is what \<^verbatim>\<open>toBase64(file)\<close> resolves
  with, or nothing when it rejects.\<close>

definition processImageFile :: "string \<Rightarrow> string option \<Rightarrow> Update list" where
  "processImageFile fileType base64 =
     (if prefix ''image/'' fileType then
        (case base64 of
           Some base64Image \<Rightarrow>
             [setUploadedImage (Some base64Image),
              setClonedDesign \<lparr> status = IDLE, imageUrl = None \<rparr>,
              setRemovedBgDesign \<lparr> status = IDLE, imageUrl = None \<rparr>,
              setResizedDesign \<lparr> status = IDLE, imageUrl = None \<rparr>,
              setMockups [],
              setError None,
              setProductDetails None]
         | None \<Rightarrow> [setError (Some ''Couldn't process this image. Please try another file.'')])
      else [setError (Some ''Please paste or upload a valid image file.'')])"

definition handleProductSelect :: "string \<Rightarrow> Update" where
  "handleProductSelect productId s =
     (let prev = selectedProducts s
      in if productId \<in> set prev
         then s\<lparr>selectedProducts := filter (\<lambda>i. i \<noteq> productId) prev\<rparr>
         else if length prev \<ge> 6
         then s\<lparr>error := Some ''You can select a maximum of 6 mockups.''\<rparr>
         else s\<lparr>selectedProducts := prev @ [productId]\<rparr>)"

subsection \<open>handleGenerateClick\<close>

text \<open>
  The services are parameters of a run: what each call settles with, the message of the
  error (\<^verbatim>\<open>err.message\<close>, which an error may lack) or the image payload. The mockup
  calls are told apart by the product they are made for. \<open>settleOrder\<close> is the order in
  which the mockup calls of \<^verbatim>\<open>Promise.all\<close> settle.
\<close>

record Services =
  analyzeImageColorCall :: "string \<Rightarrow> string \<Rightarrow> string option + string"
  cloneDesignCall :: "string \<Rightarrow> string \<Rightarrow> string option \<Rightarrow> string option + string"
  removeBackgroundCall :: "string \<Rightarrow> string \<Rightarrow> string option + string"
  resizeDesignCall :: "string \<Rightarrow> string option + string"
  createMockupCall ::
    "string \<Rightarrow> string \<Rightarrow> string \<Rightarrow> string \<Rightarrow> string \<Rightarrow> string option \<Rightarrow> string option + string"
  settleOrder :: "string list \<Rightarrow> string list"

datatype Completion = Normal | Thrown "string option"

definition andThen :: "Update list \<Rightarrow> Update list \<times> Completion \<Rightarrow> Update list \<times> Completion" where
  "andThen us rest = (us @ fst rest, snd rest)"

text \<open>Lines 128 to 138: the setter calls before the \<^verbatim>\<open>try\<close>.\<close>

definition runInit :: "(string \<Rightarrow> Product) \<Rightarrow> AppState \<Rightarrow> Update list" where
  "runInit PRODUCTS r =
     [setIsLoading True,
      setError None,
      setProductDetails None,
      setClonedDesign \<lparr> status = PENDING, imageUrl = None \<rparr>,
      setRemovedBgDesign \<lparr> status = IDLE, imageUrl = None \<rparr>,
      setResizedDesign \<lparr> status = IDLE, imageUrl = None \<rparr>,
      (if length (selectedProducts r) > 0
       then setMockups (map (\<lambda>i. \<lparr> status = PENDING, imageUrl = None,
                                   mockupId = i, mockupName = name (PRODUCTS i) \<rparr>)
                          (selectedProducts r))
       else setMockups [])]"

text \<open>One task of the fan-out (lines 163 to 171): its only setter call.\<close>

definition mockupTask ::
  "(string \<Rightarrow> Product) \<Rightarrow> Services \<Rightarrow> AppState \<Rightarrow> string \<Rightarrow> string \<Rightarrow> string option \<Rightarrow> string \<Rightarrow> Update" where
  "mockupTask PRODUCTS w r resizedImageUrl dominantColor instructionsToPass productId =
     (case createMockupCall w productId (geminiApiKey r) resizedImageUrl
             (prompt (PRODUCTS productId)) dominantColor instructionsToPass of
        Inr mockupImageUrl \<Rightarrow>
          setMockupsWith (map (\<lambda>m. if mockupId m = productId
                                   then m\<lparr>status := SUCCESS, imageUrl := Some mockupImageUrl\<rparr>
                                   else m))
      | Inl err \<Rightarrow>
          setMockupsWith (map (\<lambda>m. if mockupId m = productId then m\<lparr>status := FAILED\<rparr> else m)))"

text \<open>The \<^verbatim>\<open>try\<close> block (lines 143 to 172): its setter calls, and how it ends.\<close>

definition tryBlock ::
  "(string \<Rightarrow> Product) \<Rightarrow> Services \<Rightarrow> AppState \<Rightarrow> Update list \<times> Completion" where
  "tryBlock PRODUCTS w r =
     andThen [setLoadingMessage ''Analyzing color...'']
     (case analyzeImageColorCall w (geminiApiKey r) (the (uploadedImage r)) of
        Inl err \<Rightarrow> ([], Thrown err)
      | Inr dominantColor \<Rightarrow>
     andThen [setLoadingMessage (if mode r = cloner then ''Cloning design...'' else ''Redesigning...'')]
     (let instructionsToPass = (if mode r = redesign then Some (additionalInstructions r) else None)
      in case cloneDesignCall w (geminiApiKey r) (the (uploadedImage r)) instructionsToPass of
        Inl err \<Rightarrow> ([], Thrown err)
      | Inr clonedImageUrl \<Rightarrow>
     andThen [setClonedDesign \<lparr> status = SUCCESS, imageUrl = Some clonedImageUrl \<rparr>,
              setLoadingMessage ''Removing background...'',
              setRemovedBgDesign \<lparr> status = PENDING, imageUrl = None \<rparr>]
     (case removeBackgroundCall w (photoroomApiKey r) clonedImageUrl of
        Inl err \<Rightarrow> ([], Thrown err)
      | Inr transparentImageUrl \<Rightarrow>
     andThen [setRemovedBgDesign \<lparr> status = SUCCESS, imageUrl = Some transparentImageUrl \<rparr>,
              setLoadingMessage ''Resizing for print...'',
              setResizedDesign \<lparr> status = PENDING, imageUrl = None \<rparr>]
     (case resizeDesignCall w transparentImageUrl of
        Inl err \<Rightarrow> ([], Thrown err)
      | Inr resizedImageUrl \<Rightarrow>
          (setResizedDesign \<lparr> status = SUCCESS, imageUrl = Some resizedImageUrl \<rparr>
           # (if length (selectedProducts r) > 0
              then setLoadingMessage ''Creating mockups...''
                   # map (mockupTask PRODUCTS w r resizedImageUrl dominantColor instructionsToPass)
                       (settleOrder w (selectedProducts r))
              else []),
           Normal)))))"

text \<open>
  The \<^verbatim>\<open>catch\<close> block (lines 174 to 182). \<^verbatim>\<open>clonedDesign\<close>, \<^verbatim>\<open>removedBgDesign\<close>
  and \<^verbatim>\<open>resizedDesign\<close> are constants of the component's body (\<^verbatim>\<open>const [clonedDesign,
  setClonedDesign] = useState(...)\<close>), and the handler is defined in that body: its three
  guards read the values of the render whose handler was clicked, \<open>r\<close>. The setter calls
  of the \<^verbatim>\<open>try\<close> block lead to later renders, with constants of their own. Only the
  update of the mockups is given a function, and sees the current items.
\<close>

definition catchBlock :: "AppState \<Rightarrow> string option \<Rightarrow> Update list" where
  "catchBlock r err =
     [setError (Some (if truthy err then the err
                      else ''Could not process the design. Please try another image.''))]
     @ (if status (clonedDesign r) = PENDING
        then [setClonedDesign \<lparr> status = FAILED, imageUrl = None \<rparr>] else [])
     @ (if status (removedBgDesign r) \<noteq> SUCCESS
        then [setRemovedBgDesign \<lparr> status = FAILED, imageUrl = None \<rparr>] else [])
     @ (if status (resizedDesign r) \<noteq> SUCCESS
        then [setResizedDesign \<lparr> status = FAILED, imageUrl = None \<rparr>] else [])
     @ (if length (selectedProducts r) > 0
        then [setMockupsWith (map (\<lambda>m. if status m = PENDING then m\<lparr>status := FAILED\<rparr> else m))]
        else [])"

definition finallyBlock :: "Update list" where
  "finallyBlock = [setIsLoading False, setLoadingMessage []]"

definition handleGenerateClick ::
  "(string \<Rightarrow> Product) \<Rightarrow> Services \<Rightarrow> AppState \<Rightarrow> Update list" where
  "handleGenerateClick PRODUCTS w r =
     (if geminiApiKey r = [] then
        [setError (Some ''Please enter your Gemini API key to start.''), setShowApiKeys True]
      else if \<not> truthy (uploadedImage r) then
        [setError (Some ''Please upload a design image to start!'')]
      else
        runInit PRODUCTS r
        @ (case tryBlock PRODUCTS w r of
             (us, Normal) \<Rightarrow> us
           | (us, Thrown err) \<Rightarrow> us @ catchBlock r err)
        @ finallyBlock)"

text \<open>A run: the handler of the render that shows \<open>r\<close> is called, and its updates reach
  the state one after the other.\<close>

definition runStates :: "(string \<Rightarrow> Product) \<Rightarrow> Services \<Rightarrow> AppState \<Rightarrow> AppState list" where
  "runStates PRODUCTS w r = statesAlong r (handleGenerateClick PRODUCTS w r)"

definition runResult :: "(string \<Rightarrow> Product) \<Rightarrow> Services \<Rightarrow> AppState \<Rightarrow> AppState" where
  "runResult PRODUCTS w r = applyUpdates (handleGenerateClick PRODUCTS w r) r"

text \<open>The states the component can be in: the first render, then uploads, selections,
  runs, a run seen at each of its setter calls, and whatever the other handlers do (the
  mode, the instructions, the keys, the product details, the notification), which leaves
  the assets, the mockups and the selection as they are. A run is followed from its first
  setter call to its last; no other handler runs in between.\<close>

inductive reachable :: "(string \<Rightarrow> Product) \<Rightarrow> AppState \<Rightarrow> bool" for PRODUCTS where
  first: "distinct keys \<Longrightarrow> reachable PRODUCTS (initialState keys k1 k2)"
| upload: "reachable PRODUCTS s \<Longrightarrow> s' \<in> set (statesAlong s (processImageFile fileType base64))
           \<Longrightarrow> reachable PRODUCTS s'"
| select: "reachable PRODUCTS s \<Longrightarrow> reachable PRODUCTS (handleProductSelect productId s)"
| other: "reachable PRODUCTS s \<Longrightarrow>
          clonedDesign s' = clonedDesign s \<Longrightarrow> removedBgDesign s' = removedBgDesign s \<Longrightarrow>
          resizedDesign s' = resizedDesign s \<Longrightarrow> mockups s' = mockups s \<Longrightarrow>
          selectedProducts s' = selectedProducts s \<Longrightarrow> reachable PRODUCTS s'"
| generate: "reachable PRODUCTS s \<Longrightarrow> s' \<in> set (runStates PRODUCTS w s)
             \<Longrightarrow> reachable PRODUCTS s'"

text \<open>The invariant of the data model: an image is there exactly with \<open>SUCCESS\<close>.\<close>

definition assetOk :: "'a ClonedDesign_scheme \<Rightarrow> bool" where
  "assetOk a = (imageUrl a \<noteq> None \<longleftrightarrow> status a = SUCCESS)"

definition stateOk :: "AppState \<Rightarrow> bool" where
  "stateOk s =
     (assetOk (clonedDesign s) \<and> assetOk (removedBgDesign s) \<and> assetOk (resizedDesign s)
      \<and> list_all assetOk (mockups s))"

definition terminal :: "Status \<Rightarrow> bool" where
  "terminal st = (st = SUCCESS \<or> st = FAILED)"

text \<open>What the task of its product makes of a mockup item.\<close>

definition settledItem ::
  "Services \<Rightarrow> string \<Rightarrow> string \<Rightarrow> string \<Rightarrow> string \<Rightarrow> string option \<Rightarrow> Mockup \<Rightarrow> Mockup" where
  "settledItem w apiKey design productPrompt color instructions m =
     (case createMockupCall w (mockupId m) apiKey design productPrompt color instructions of
        Inr u \<Rightarrow> m\<lparr>status := SUCCESS, imageUrl := Some u\<rparr>
      | Inl e \<Rightarrow> m\<lparr>status := FAILED\<rparr>)"

text \<open>The invariant of a run: the data model's, no product is selected twice, and a mockup
  shows \<open>SUCCESS\<close> only if the call made for its product succeeds.\<close>

definition runOk :: "(string \<Rightarrow> bool) \<Rightarrow> AppState \<Rightarrow> bool" where
  "runOk good s =
     (stateOk s \<and> distinct (selectedProducts s)
      \<and> list_all (\<lambda>m. status m = SUCCESS \<longrightarrow> good (mockupId m)) (mockups s))"

definition plainOk :: "AppState \<Rightarrow> bool" where
  "plainOk s = runOk (\<lambda>p. True) s"

section \<open>Concrete inputs\<close>

text \<open>A response that carries a block reason and an image part, and one that carries a
  text part and two image parts.\<close>

definition blockedWithImage :: GenerateContentResponse where
  "blockedWithImage =
     \<lparr> promptFeedback = Some \<lparr> blockReason = Some ''SAFETY'', blockReasonMessage = None,
                               safetyRatings = None \<rparr>,
       candidates = Some [\<lparr> content = Some \<lparr> parts = Some
          [\<lparr> inlineData = Some \<lparr> mimeType = Some ''image/png'', data = Some ''AAAA'' \<rparr>,
             partText = None \<rparr>] \<rparr> \<rparr>],
       responseText = None \<rparr>"

definition textThenImages :: GenerateContentResponse where
  "textThenImages =
     \<lparr> promptFeedback = None,
       candidates = Some [\<lparr> content = Some \<lparr> parts = Some
          [\<lparr> inlineData = None, partText = Some ''Here is your mockup.'' \<rparr>,
           \<lparr> inlineData = Some \<lparr> mimeType = Some ''image/png'', data = Some ''AAAA'' \<rparr>,
             partText = None \<rparr>,
           \<lparr> inlineData = Some \<lparr> mimeType = Some ''image/png'', data = Some ''BBBB'' \<rparr>,
             partText = None \<rparr>] \<rparr> \<rparr>],
       responseText = Some ''Here is your mockup.'' \<rparr>"

text \<open>A response that is not blocked, whose second safety rating is MEDIUM and whose third
  is HIGH, and that carries an image part; one without parts and text; one whose parts
  are an empty text and a text; one whose only part has neither image nor text.\<close>

definition filteredWithImage :: GenerateContentResponse where
  "filteredWithImage =
     \<lparr> promptFeedback = Some
         \<lparr> blockReason = None, blockReasonMessage = None,
           safetyRatings = Some
             [\<lparr> category = ''HARM_CATEGORY_HARASSMENT'', probability = ''LOW'' \<rparr>,
              \<lparr> category = ''HARM_CATEGORY_DANGEROUS_CONTENT'', probability = ''MEDIUM'' \<rparr>,
              \<lparr> category = ''HARM_CATEGORY_HATE_SPEECH'', probability = ''HIGH'' \<rparr>] \<rparr>,
       candidates = Some [\<lparr> content = Some \<lparr> parts = Some
          [\<lparr> inlineData = Some \<lparr> mimeType = Some ''image/png'', data = Some ''AAAA'' \<rparr>,
             partText = None \<rparr>] \<rparr> \<rparr>],
       responseText = None \<rparr>"

definition withoutParts :: GenerateContentResponse where
  "withoutParts =
     \<lparr> promptFeedback = Some
         \<lparr> blockReason = None, blockReasonMessage = None,
           safetyRatings = Some
             [\<lparr> category = ''HARM_CATEGORY_HARASSMENT'', probability = ''LOW'' \<rparr>] \<rparr>,
       candidates = Some [\<lparr> content = Some \<lparr> parts = Some [] \<rparr> \<rparr>],
       responseText = None \<rparr>"

definition textOnly :: GenerateContentResponse where
  "textOnly =
     \<lparr> promptFeedback = None,
       candidates = Some [\<lparr> content = Some \<lparr> parts = Some
          [\<lparr> inlineData = None, partText = Some [] \<rparr>,
           \<lparr> inlineData = None, partText = Some '' I cannot draw that. '' \<rparr>] \<rparr> \<rparr>],
       responseText = Some '' I cannot draw that. '' \<rparr>"

definition neitherImageNorText :: GenerateContentResponse where
  "neitherImageNorText =
     \<lparr> promptFeedback = None,
       candidates = Some [\<lparr> content = Some \<lparr> parts = Some
          [\<lparr> inlineData = None, partText = None \<rparr>] \<rparr> \<rparr>],
       responseText = None \<rparr>"

text \<open>A browser whose background-removal backend answers 500 with a body.\<close>

definition failingBrowser :: Browser where
  "failingBrowser =
     \<lparr> atob = (\<lambda>encoded. Inr ''PNG-bytes''),
       fetch = (\<lambda>request. Inr \<lparr> ok = False, httpStatus = 500, body = ''quota exceeded'' \<rparr>),
       readAsDataURL = (\<lambda>blob. Some (''data:image/png;base64,'' @ blob)) \<rparr>"

text \<open>A catalogue, the state after the first upload (four products selected, every asset
  \<open>IDLE\<close>), and services: all succeeding, and with one call failing.\<close>

definition exampleProducts :: "string \<Rightarrow> Product" where
  "exampleProducts i = \<lparr> name = i, prompt = ''A studio photo of a '' @ i \<rparr>"

definition firstState :: AppState where
  "firstState = initialState [''tshirt'', ''hoodie'', ''mug'', ''tote'', ''poster''] ''gemini-key'' []"

definition uploadedState :: AppState where
  "uploadedState =
     applyUpdates (processImageFile ''image/png'' (Some ''data:image/png;base64,AAAA'')) firstState"

definition allSucceed :: Services where
  "allSucceed =
     \<lparr> analyzeImageColorCall = (\<lambda>apiKey image. Inr ''#000000''),
       cloneDesignCall = (\<lambda>apiKey image instructions. Inr ''data:image/png;base64,CLONE''),
       removeBackgroundCall = (\<lambda>apiKey image. Inr ''data:image/png;base64,CUTOUT''),
       resizeDesignCall = (\<lambda>image. Inr ''data:image/png;base64,PRINT''),
       createMockupCall = (\<lambda>productId apiKey image productPrompt color instructions.
                             Inr (''data:image/png;base64,MOCKUP-'' @ productId)),
       settleOrder = rev \<rparr>"

definition resizeFails :: Services where
  "resizeFails =
     allSucceed\<lparr>resizeDesignCall := (\<lambda>image. Inl (Some ''Failed to load image for resizing.''))\<rparr>"

definition cloneFails :: Services where
  "cloneFails =
     allSucceed\<lparr>cloneDesignCall := (\<lambda>apiKey image instructions.
       Inl (Some ''API did not return an image. Please try a different design or prompt.''))\<rparr>"

definition mugRejects :: Services where
  "mugRejects =
     allSucceed\<lparr>createMockupCall := (\<lambda>productId apiKey image productPrompt color instructions.
       if productId = ''mug'' then Inl (Some ''API returned an empty response.'')
       else Inr (''data:image/png;base64,MOCKUP-'' @ productId))\<rparr>"

section \<open>Properties of the services\<close>

lemma trim_Nil: "trim [] = []"
  by (simp add: trim_def)

lemma find_first:
  "(\<forall>q\<in>set before. \<not> P q) \<Longrightarrow> P x \<Longrightarrow> find P (before @ x # after) = Some x"
  by (induction before) auto

lemma find_none: "(\<forall>q\<in>set ps. \<not> P q) \<Longrightarrow> find P ps = None"
  by (induction ps) auto

lemma if_Some_eq: "(if A then Some x else None) = Some y \<Longrightarrow> A \<and> x = y"
  by (simp split: if_splits)

subsection \<open>analyzeImageColor\<close>

text \<open>With a key, a backend that answers and a response that has text, the result is the
  trimmed text when it is a hex colour and the default colour otherwise.\<close>

lemma analyzeImageColor_text:
  assumes "apiKey \<noteq> []"
    and "backend \<lparr> model = ''gemini-2.5-flash'',
                   contents = [TextPart colorPrompt, getImagePart base64Image],
                   responseModalities = [] \<rparr> = Inr response"
    and "responseText response = Some t"
  shows "analyzeImageColor backend apiKey base64Image =
           Inr (if hexColorRegex (trim t) then trim t else ''#F3F4F6'')"
  using assms by (simp add: analyzeImageColor_def getAiClient_def)

text \<open>
  C10. The claim: \<^verbatim>\<open>analyzeImageColor\<close> throws only when the credential is empty or the call
  to the backend throws. A response without text (a blocked prompt has no candidates, and
  \<^verbatim>\<open>response.text\<close> is \<^verbatim>\<open>undefined\<close>) is neither: the key is present and the backend
  answers, yet \<^verbatim>\<open>response.text.trim()\<close> throws a TypeError, where \<^verbatim>\<open>generateImage\<close>
  guards the same read with \<^verbatim>\<open>?.\<close>.
\<close>

theorem analyzeImageColor_no_text:
  "analyzeImageColor
     (\<lambda>request. Inr \<lparr> promptFeedback = Some \<lparr> blockReason = Some ''SAFETY'',
                                                blockReasonMessage = None,
                                                safetyRatings = None \<rparr>,
                       candidates = None, responseText = None \<rparr>)
     ''key'' ''data:image/png;base64,AAAA'' = Inl TypeError"
  by (simp add: analyzeImageColor_def getAiClient_def)

subsection \<open>generateImage\<close>

text \<open>What each check of \<^verbatim>\<open>generateImage\<close> finds, from the fields of the response.\<close>

lemma explicitBlock_found:
  assumes "promptFeedback response = Some pf" and "blockReason pf = Some reason" and "reason \<noteq> []"
  shows "explicitBlock response = Some pf"
  using assms by (simp add: explicitBlock_def truthy_def)

lemma explicitBlock_absent:
  assumes "\<forall>f. promptFeedback response = Some f \<longrightarrow>
             blockReason f = None \<or> blockReason f = Some []"
  shows "explicitBlock response = None"
proof (cases "promptFeedback response")
  case None
  then show ?thesis by (simp add: explicitBlock_def)
next
  case (Some f)
  with assms have "blockReason f = None \<or> blockReason f = Some []" by simp
  then show ?thesis using Some by (auto simp add: explicitBlock_def truthy_def)
qed

lemma harmfulRatingOf_found:
  assumes "promptFeedback response = Some pf"
    and "safetyRatings pf = Some (safe @ rating # others)"
    and "\<forall>q\<in>set safe. probability q \<noteq> ''HIGH'' \<and> probability q \<noteq> ''MEDIUM''"
    and "probability rating = ''HIGH'' \<or> probability rating = ''MEDIUM''"
  shows "harmfulRatingOf response = Some rating"
proof -
  have "find (\<lambda>q. probability q \<in> set [''HIGH'', ''MEDIUM'']) (safe @ rating # others) = Some rating"
  proof (rule find_first)
    show "\<forall>q\<in>set safe. \<not> probability q \<in> set [''HIGH'', ''MEDIUM'']"
      using assms(3) unfolding list.set by blast
    show "probability rating \<in> set [''HIGH'', ''MEDIUM'']"
      using assms(4) unfolding list.set by blast
  qed
  then show ?thesis
    unfolding harmfulRatingOf_def assms(1) assms(2) option.case .
qed

lemma harmfulRatingOf_absent:
  assumes "\<forall>f. promptFeedback response = Some f \<longrightarrow>
             (\<forall>ratings. safetyRatings f = Some ratings \<longrightarrow>
                (\<forall>q\<in>set ratings. probability q \<noteq> ''HIGH'' \<and> probability q \<noteq> ''MEDIUM''))"
  shows "harmfulRatingOf response = None"
proof (cases "promptFeedback response")
  case None
  then show ?thesis by (simp add: harmfulRatingOf_def)
next
  case f: (Some f)
  show ?thesis
  proof (cases "safetyRatings f")
    case None
    then show ?thesis using f by (simp add: harmfulRatingOf_def)
  next
    case (Some ratings)
    with assms f
    have "\<forall>q\<in>set ratings. probability q \<noteq> ''HIGH'' \<and> probability q \<noteq> ''MEDIUM''"
      by blast
    then have "\<forall>q\<in>set ratings. \<not> probability q \<in> set [''HIGH'', ''MEDIUM'']"
      unfolding list.set by blast
    then have "find (\<lambda>q. probability q \<in> set [''HIGH'', ''MEDIUM'']) ratings = None"
      by (rule find_none)
    then show ?thesis
      unfolding harmfulRatingOf_def f Some option.case .
  qed
qed

lemma firstCandidateParts_found:
  assumes "candidates response = Some (c # cs)" and "content c = Some ct" and "parts ct = Some ps"
  shows "firstCandidateParts response = Some ps"
  using assms by (simp add: firstCandidateParts_def)

lemma firstCandidateParts_absent:
  assumes "candidates response = None \<or> candidates response = Some []
           \<or> (candidates response = Some (c # cs)
               \<and> (content c = None \<or> (content c = Some ct \<and> (parts ct = None \<or> parts ct = Some []))))"
  shows "firstCandidateParts response = None \<or> firstCandidateParts response = Some []"
  using assms by (auto simp add: firstCandidateParts_def)

text \<open>The result of \<^verbatim>\<open>generateImage\<close> once the first two checks have found nothing.\<close>

lemma generateImage_unblocked:
  assumes "apiKey \<noteq> []"
    and "backend \<lparr> model = ''gemini-2.5-flash-image-preview'',
                   contents = [getImagePart base64InputImage, TextPart promptText],
                   responseModalities = [''IMAGE'', ''TEXT''] \<rparr> = Inr response"
    and "\<forall>f. promptFeedback response = Some f \<longrightarrow>
              (blockReason f = None \<or> blockReason f = Some [])
              \<and> (\<forall>ratings. safetyRatings f = Some ratings \<longrightarrow>
                    (\<forall>q\<in>set ratings. probability q \<noteq> ''HIGH'' \<and> probability q \<noteq> ''MEDIUM''))"
  shows "generateImage backend apiKey promptText base64InputImage =
     (case firstCandidateParts response of
        None \<Rightarrow>
          (let txt0 = map_option trim (responseText response)
           in if truthy txt0 then Inl (ApiCallFailed (the txt0)) else Inl EmptyResponse)
      | Some [] \<Rightarrow>
          (let txt0 = map_option trim (responseText response)
           in if truthy txt0 then Inl (ApiCallFailed (the txt0)) else Inl EmptyResponse)
      | Some (p # ps) \<Rightarrow>
          (case find (\<lambda>part. inlineData part \<noteq> None) (p # ps) of
             Some imagePart \<Rightarrow>
               Inr (''data:image/png;base64,'' @ interpolate (data (the (inlineData imagePart))))
           | None \<Rightarrow>
               (let textPart = find (\<lambda>part. truthy (partText part)) (p # ps);
                    textResponse = (case textPart of Some q \<Rightarrow> partText q
                                    | None \<Rightarrow> responseText response)
                in if truthy textResponse \<and> trim (the textResponse) \<noteq> []
                   then Inl (TextInsteadOfImage (trim (the textResponse)))
                   else Inl NoImageReturned)))"
proof -
  have b: "explicitBlock response = None"
    using assms(3) by (intro explicitBlock_absent) blast
  have h: "harmfulRatingOf response = None"
    using assms(3) by (intro harmfulRatingOf_absent) blast
  show ?thesis
    using assms(1,2) b h by (simp add: generateImage_def getAiClient_def)
qed

text \<open>
  C4. With a key and a backend that answers, \<^verbatim>\<open>generateImage\<close> classifies the response in
  a fixed order, each check cutting off the ones after it. (1) A non-empty block reason
  gives \<open>BlockedContent\<close> with that reason, whatever else the response carries. (2) Without
  one, the first safety rating whose probability is HIGH or MEDIUM gives \<open>FilteredContent\<close>
  with the category of that rating, whatever the candidates carry. When there is neither a
  block reason nor such a rating: (3) missing or empty parts give \<open>ApiCallFailed\<close> with the
  trimmed text of the response if that is not empty, and \<open>EmptyResponse\<close> otherwise; (4) the
  first part that carries image data is returned as a data URL, whatever the parts before
  it say and whatever follows it; (5) with parts but no image data, the first part with a
  non-empty text gives \<open>TextInsteadOfImage\<close> with that text trimmed, or \<open>NoImageReturned\<close> if
  it trims to nothing; (6) with no such part either, the text of the response decides in the
  same way, and \<open>NoImageReturned\<close> is the result when it is missing.
\<close>

theorem generateImage_classification_order:
  assumes key: "apiKey \<noteq> []"
    and answer: "backend \<lparr> model = ''gemini-2.5-flash-image-preview'',
                         contents = [getImagePart base64InputImage, TextPart promptText],
                         responseModalities = [''IMAGE'', ''TEXT''] \<rparr> = Inr response"
  shows "(promptFeedback response = Some pf \<and> blockReason pf = Some reason \<and> reason \<noteq> [] \<longrightarrow>
            generateImage backend apiKey promptText base64InputImage =
              Inl (BlockedContent reason
                     (case blockReasonMessage pf of
                        None \<Rightarrow> None
                      | Some m \<Rightarrow> if m \<noteq> [] then Some m else None)))
       \<and> (promptFeedback response = Some pf
            \<and> (blockReason pf = None \<or> blockReason pf = Some [])
            \<and> safetyRatings pf = Some (safe @ rating # others)
            \<and> (\<forall>q\<in>set safe. probability q \<noteq> ''HIGH'' \<and> probability q \<noteq> ''MEDIUM'')
            \<and> (probability rating = ''HIGH'' \<or> probability rating = ''MEDIUM'') \<longrightarrow>
            generateImage backend apiKey promptText base64InputImage =
              Inl (FilteredContent (category rating)))
       \<and> ((\<forall>f. promptFeedback response = Some f \<longrightarrow>
              (blockReason f = None \<or> blockReason f = Some [])
              \<and> (\<forall>ratings. safetyRatings f = Some ratings \<longrightarrow>
                    (\<forall>q\<in>set ratings. probability q \<noteq> ''HIGH'' \<and> probability q \<noteq> ''MEDIUM''))) \<longrightarrow>
           (candidates response = None \<or> candidates response = Some []
              \<or> (candidates response = Some (c # cs)
                  \<and> (content c = None
                      \<or> (content c = Some ct \<and> (parts ct = None \<or> parts ct = Some [])))) \<longrightarrow>
              generateImage backend apiKey promptText base64InputImage =
                (case responseText response of
                   None \<Rightarrow> Inl EmptyResponse
                 | Some t \<Rightarrow> if trim t \<noteq> [] then Inl (ApiCallFailed (trim t))
                             else Inl EmptyResponse))
         \<and> (candidates response = Some (c # cs) \<and> content c = Some ct
              \<and> parts ct = Some (before @ part # after)
              \<and> (\<forall>q\<in>set before. inlineData q = None) \<and> inlineData part = Some d \<longrightarrow>
              generateImage backend apiKey promptText base64InputImage =
                Inr (''data:image/png;base64,'' @ interpolate (data d)))
         \<and> (candidates response = Some (c # cs) \<and> content c = Some ct
              \<and> parts ct = Some (before @ part # after)
              \<and> (\<forall>q\<in>set (before @ part # after). inlineData q = None)
              \<and> (\<forall>q\<in>set before. partText q = None \<or> partText q = Some [])
              \<and> partText part = Some t \<and> t \<noteq> [] \<longrightarrow>
              generateImage backend apiKey promptText base64InputImage =
                (if trim t \<noteq> [] then Inl (TextInsteadOfImage (trim t)) else Inl NoImageReturned))
         \<and> (candidates response = Some (c # cs) \<and> content c = Some ct
              \<and> parts ct = Some ps \<and> ps \<noteq> []
              \<and> (\<forall>q\<in>set ps. inlineData q = None \<and> (partText q = None \<or> partText q = Some [])) \<longrightarrow>
              generateImage backend apiKey promptText base64InputImage =
                (case responseText response of
                   None \<Rightarrow> Inl NoImageReturned
                 | Some t \<Rightarrow> if trim t \<noteq> [] then Inl (TextInsteadOfImage (trim t))
                             else Inl NoImageReturned)))"
proof (intro conjI impI)
  assume a: "promptFeedback response = Some pf \<and> blockReason pf = Some reason \<and> reason \<noteq> []"
  then have "explicitBlock response = Some pf"
    by (intro explicitBlock_found) auto
  then show "generateImage backend apiKey promptText base64InputImage =
              Inl (BlockedContent reason
                     (case blockReasonMessage pf of
                        None \<Rightarrow> None
                      | Some m \<Rightarrow> if m \<noteq> [] then Some m else None))"
    using key answer a
    by (cases "blockReasonMessage pf") (simp_all add: generateImage_def getAiClient_def truthy_def)
next
  assume a: "promptFeedback response = Some pf
            \<and> (blockReason pf = None \<or> blockReason pf = Some [])
            \<and> safetyRatings pf = Some (safe @ rating # others)
            \<and> (\<forall>q\<in>set safe. probability q \<noteq> ''HIGH'' \<and> probability q \<noteq> ''MEDIUM'')
            \<and> (probability rating = ''HIGH'' \<or> probability rating = ''MEDIUM'')"
  then have "explicitBlock response = None"
    by (intro explicitBlock_absent) auto
  moreover from a have "harmfulRatingOf response = Some rating"
    by (intro harmfulRatingOf_found[of response pf safe rating others]) blast+
  ultimately show "generateImage backend apiKey promptText base64InputImage =
              Inl (FilteredContent (category rating))"
    using key answer by (simp add: generateImage_def getAiClient_def)
next
  assume clean: "\<forall>f. promptFeedback response = Some f \<longrightarrow>
            (blockReason f = None \<or> blockReason f = Some [])
            \<and> (\<forall>ratings. safetyRatings f = Some ratings \<longrightarrow>
                  (\<forall>q\<in>set ratings. probability q \<noteq> ''HIGH'' \<and> probability q \<noteq> ''MEDIUM''))"
  note rest = generateImage_unblocked[of apiKey backend base64InputImage promptText response,
                                       OF key answer clean]
  assume "candidates response = None \<or> candidates response = Some []
            \<or> (candidates response = Some (c # cs)
                \<and> (content c = None
                    \<or> (content c = Some ct \<and> (parts ct = None \<or> parts ct = Some []))))"
  then have "firstCandidateParts response = None \<or> firstCandidateParts response = Some []"
    by (rule firstCandidateParts_absent)
  then show "generateImage backend apiKey promptText base64InputImage =
              (case responseText response of
                 None \<Rightarrow> Inl EmptyResponse
               | Some t \<Rightarrow> if trim t \<noteq> [] then Inl (ApiCallFailed (trim t))
                           else Inl EmptyResponse)"
    unfolding rest
    by (cases "responseText response") (auto simp add: truthy_def)
next
  assume clean: "\<forall>f. promptFeedback response = Some f \<longrightarrow>
            (blockReason f = None \<or> blockReason f = Some [])
            \<and> (\<forall>ratings. safetyRatings f = Some ratings \<longrightarrow>
                  (\<forall>q\<in>set ratings. probability q \<noteq> ''HIGH'' \<and> probability q \<noteq> ''MEDIUM''))"
  note rest = generateImage_unblocked[of apiKey backend base64InputImage promptText response,
                                       OF key answer clean]
  assume a: "candidates response = Some (c # cs) \<and> content c = Some ct
            \<and> parts ct = Some (before @ part # after)
            \<and> (\<forall>q\<in>set before. inlineData q = None) \<and> inlineData part = Some d"
  then have p: "firstCandidateParts response = Some (before @ part # after)"
    by (intro firstCandidateParts_found[of response c cs ct]) blast+
  from a have f: "find (\<lambda>p. inlineData p \<noteq> None) (before @ part # after) = Some part"
    by (intro find_first) auto
  obtain p0 ps0 where e: "before @ part # after = p0 # ps0"
    by (cases "before @ part # after") auto
  show "generateImage backend apiKey promptText base64InputImage =
              Inr (''data:image/png;base64,'' @ interpolate (data d))"
    using a f unfolding rest p e by simp
next
  assume clean: "\<forall>f. promptFeedback response = Some f \<longrightarrow>
            (blockReason f = None \<or> blockReason f = Some [])
            \<and> (\<forall>ratings. safetyRatings f = Some ratings \<longrightarrow>
                  (\<forall>q\<in>set ratings. probability q \<noteq> ''HIGH'' \<and> probability q \<noteq> ''MEDIUM''))"
  note rest = generateImage_unblocked[of apiKey backend base64InputImage promptText response,
                                       OF key answer clean]
  assume a: "candidates response = Some (c # cs) \<and> content c = Some ct
            \<and> parts ct = Some (before @ part # after)
            \<and> (\<forall>q\<in>set (before @ part # after). inlineData q = None)
            \<and> (\<forall>q\<in>set before. partText q = None \<or> partText q = Some [])
            \<and> partText part = Some t \<and> t \<noteq> []"
  then have p: "firstCandidateParts response = Some (before @ part # after)"
    by (intro firstCandidateParts_found[of response c cs ct]) blast+
  from a have f: "find (\<lambda>p. inlineData p \<noteq> None) (before @ part # after) = None"
    by (intro find_none) auto
  from a have g: "find (\<lambda>p. truthy (partText p)) (before @ part # after) = Some part"
    by (intro find_first) (auto simp add: truthy_def)
  obtain p0 ps0 where e: "before @ part # after = p0 # ps0"
    by (cases "before @ part # after") auto
  show "generateImage backend apiKey promptText base64InputImage =
              (if trim t \<noteq> [] then Inl (TextInsteadOfImage (trim t)) else Inl NoImageReturned)"
    using a f g unfolding rest p e by (simp add: truthy_def)
next
  assume clean: "\<forall>f. promptFeedback response = Some f \<longrightarrow>
            (blockReason f = None \<or> blockReason f = Some [])
            \<and> (\<forall>ratings. safetyRatings f = Some ratings \<longrightarrow>
                  (\<forall>q\<in>set ratings. probability q \<noteq> ''HIGH'' \<and> probability q \<noteq> ''MEDIUM''))"
  note rest = generateImage_unblocked[of apiKey backend base64InputImage promptText response,
                                       OF key answer clean]
  assume a: "candidates response = Some (c # cs) \<and> content c = Some ct
            \<and> parts ct = Some ps \<and> ps \<noteq> []
            \<and> (\<forall>q\<in>set ps. inlineData q = None \<and> (partText q = None \<or> partText q = Some []))"
  then have p: "firstCandidateParts response = Some ps"
    by (intro firstCandidateParts_found[of response c cs ct]) blast+
  from a have f: "find (\<lambda>p. inlineData p \<noteq> None) ps = None"
    by (intro find_none) auto
  from a have g: "find (\<lambda>p. truthy (partText p)) ps = None"
    by (intro find_none) (auto simp add: truthy_def)
  obtain p0 ps0 where e: "ps = p0 # ps0"
    using a by (cases ps) auto
  show "generateImage backend apiKey promptText base64InputImage =
              (case responseText response of
                 None \<Rightarrow> Inl NoImageReturned
               | Some t \<Rightarrow> if trim t \<noteq> [] then Inl (TextInsteadOfImage (trim t))
                           else Inl NoImageReturned)"
    using f g trim_Nil unfolding rest p e
    by (cases "responseText response") (auto simp add: truthy_def)
qed

text \<open>One response for each check: blocked with an image part; filtered by its second
  rating, with an image part; without parts; a text part and two image parts; texts only;
  a part with neither image nor text.\<close>

theorem generateImage_classification_order_witness:
  "generateImage (\<lambda>request. Inr blockedWithImage) ''key'' ''a mockup'' ''data:image/png;base64,AAAA''
     = Inl (BlockedContent ''SAFETY'' None)
   \<and> generateImage (\<lambda>request. Inr filteredWithImage) ''key'' ''a mockup'' ''data:image/png;base64,AAAA''
     = Inl (FilteredContent ''HARM_CATEGORY_DANGEROUS_CONTENT'')
   \<and> generateImage (\<lambda>request. Inr withoutParts) ''key'' ''a mockup'' ''data:image/png;base64,AAAA''
     = Inl EmptyResponse
   \<and> generateImage (\<lambda>request. Inr textThenImages) ''key'' ''a mockup'' ''data:image/png;base64,AAAA''
     = Inr ''data:image/png;base64,AAAA''
   \<and> generateImage (\<lambda>request. Inr textOnly) ''key'' ''a mockup'' ''data:image/png;base64,AAAA''
     = Inl (TextInsteadOfImage ''I cannot draw that.'')
   \<and> generateImage (\<lambda>request. Inr neitherImageNorText) ''key'' ''a mockup''
       ''data:image/png;base64,AAAA''
     = Inl NoImageReturned"
proof -
  have k: "''key'' \<noteq> []" by simp
  have 1: "generateImage (\<lambda>request. Inr blockedWithImage) ''key'' ''a mockup''
             ''data:image/png;base64,AAAA'' = Inl (BlockedContent ''SAFETY'' None)"
  proof -
    note th = generateImage_classification_order
      [where backend = "\<lambda>request. Inr blockedWithImage" and response = blockedWithImage
         and apiKey = "''key''" and promptText = "''a mockup''"
         and base64InputImage = "''data:image/png;base64,AAAA''"
         and pf = "\<lparr> blockReason = Some ''SAFETY'', blockReasonMessage = None,
                      safetyRatings = None \<rparr>"
         and reason = "''SAFETY''", OF k refl]
    have "promptFeedback blockedWithImage
            = Some \<lparr> blockReason = Some ''SAFETY'', blockReasonMessage = None, safetyRatings = None \<rparr>
          \<and> blockReason \<lparr> blockReason = Some ''SAFETY'', blockReasonMessage = None,
                           safetyRatings = None \<rparr> = Some ''SAFETY''
          \<and> ''SAFETY'' \<noteq> []"
      by (simp add: blockedWithImage_def)
    from th[THEN conjunct1, THEN mp, OF this] show ?thesis by simp
  qed
  have 2: "generateImage (\<lambda>request. Inr filteredWithImage) ''key'' ''a mockup''
             ''data:image/png;base64,AAAA''
             = Inl (FilteredContent ''HARM_CATEGORY_DANGEROUS_CONTENT'')"
  proof -
    let ?pf = "\<lparr> blockReason = None, blockReasonMessage = None,
           safetyRatings = Some
             [\<lparr> category = ''HARM_CATEGORY_HARASSMENT'', probability = ''LOW'' \<rparr>,
              \<lparr> category = ''HARM_CATEGORY_DANGEROUS_CONTENT'', probability = ''MEDIUM'' \<rparr>,
              \<lparr> category = ''HARM_CATEGORY_HATE_SPEECH'', probability = ''HIGH'' \<rparr>] \<rparr>"
    let ?safe = "[\<lparr> category = ''HARM_CATEGORY_HARASSMENT'', probability = ''LOW'' \<rparr>]"
    let ?rating = "\<lparr> category = ''HARM_CATEGORY_DANGEROUS_CONTENT'', probability = ''MEDIUM'' \<rparr>"
    let ?others = "[\<lparr> category = ''HARM_CATEGORY_HATE_SPEECH'', probability = ''HIGH'' \<rparr>]"
    note th = generateImage_classification_order
      [where backend = "\<lambda>request. Inr filteredWithImage" and response = filteredWithImage
         and apiKey = "''key''" and promptText = "''a mockup''"
         and base64InputImage = "''data:image/png;base64,AAAA''"
         and pf = ?pf and safe = ?safe and rating = ?rating and others = ?others, OF k refl]
    have "promptFeedback filteredWithImage = Some ?pf
          \<and> (blockReason ?pf = None \<or> blockReason ?pf = Some [])
          \<and> safetyRatings ?pf = Some (?safe @ ?rating # ?others)
          \<and> (\<forall>q\<in>set ?safe. probability q \<noteq> ''HIGH'' \<and> probability q \<noteq> ''MEDIUM'')
          \<and> (probability ?rating = ''HIGH'' \<or> probability ?rating = ''MEDIUM'')"
      by (simp add: filteredWithImage_def)
    from th[THEN conjunct2, THEN conjunct1, THEN mp, OF this] show ?thesis by simp
  qed
  have 3: "generateImage (\<lambda>request. Inr withoutParts) ''key'' ''a mockup''
             ''data:image/png;base64,AAAA'' = Inl EmptyResponse"
  proof -
    note th = generateImage_classification_order
      [where backend = "\<lambda>request. Inr withoutParts" and response = withoutParts
         and apiKey = "''key''" and promptText = "''a mockup''"
         and base64InputImage = "''data:image/png;base64,AAAA''"
         and c = "\<lparr> content = Some \<lparr> parts = Some [] \<rparr> \<rparr>" and cs = "[]"
         and ct = "\<lparr> parts = Some [] \<rparr>", OF k refl]
    have clean: "\<forall>f. promptFeedback withoutParts = Some f \<longrightarrow>
              (blockReason f = None \<or> blockReason f = Some [])
              \<and> (\<forall>ratings. safetyRatings f = Some ratings \<longrightarrow>
                    (\<forall>q\<in>set ratings. probability q \<noteq> ''HIGH'' \<and> probability q \<noteq> ''MEDIUM''))"
      by (auto simp add: withoutParts_def)
    have "candidates withoutParts = None \<or> candidates withoutParts = Some []
              \<or> (candidates withoutParts = Some (\<lparr> content = Some \<lparr> parts = Some [] \<rparr> \<rparr> # [])
                  \<and> (content \<lparr> content = Some \<lparr> parts = Some [] \<rparr> \<rparr> = None
                      \<or> (content \<lparr> content = Some \<lparr> parts = Some [] \<rparr> \<rparr> = Some \<lparr> parts = Some [] \<rparr>
                          \<and> (parts \<lparr> parts = Some [] \<rparr> = None
                              \<or> parts \<lparr> parts = Some [] \<rparr> = Some []))))"
      by (simp add: withoutParts_def)
    from th[THEN conjunct2, THEN conjunct2, THEN mp, OF clean, THEN conjunct1, THEN mp, OF this]
    show ?thesis by (simp add: withoutParts_def)
  qed
  have 4: "generateImage (\<lambda>request. Inr textThenImages) ''key'' ''a mockup''
             ''data:image/png;base64,AAAA'' = Inr ''data:image/png;base64,AAAA''"
  proof -
    let ?p1 = "\<lparr> inlineData = None, partText = Some ''Here is your mockup.'' \<rparr>"
    let ?d = "\<lparr> mimeType = Some ''image/png'', data = Some ''AAAA'' \<rparr>"
    let ?p2 = "\<lparr> inlineData = Some ?d, partText = None \<rparr>"
    let ?p3 = "\<lparr> inlineData = Some \<lparr> mimeType = Some ''image/png'', data = Some ''BBBB'' \<rparr>,
                 partText = None \<rparr>"
    let ?ct = "\<lparr> parts = Some [?p1, ?p2, ?p3] \<rparr>"
    let ?c = "\<lparr> content = Some ?ct \<rparr>"
    note th = generateImage_classification_order
      [where backend = "\<lambda>request. Inr textThenImages" and response = textThenImages
         and apiKey = "''key''" and promptText = "''a mockup''"
         and base64InputImage = "''data:image/png;base64,AAAA''"
         and c = ?c and cs = "[]" and ct = ?ct
         and before = "[?p1]" and part = ?p2 and after = "[?p3]" and d = ?d, OF k refl]
    have clean: "\<forall>f. promptFeedback textThenImages = Some f \<longrightarrow>
              (blockReason f = None \<or> blockReason f = Some [])
              \<and> (\<forall>ratings. safetyRatings f = Some ratings \<longrightarrow>
                    (\<forall>q\<in>set ratings. probability q \<noteq> ''HIGH'' \<and> probability q \<noteq> ''MEDIUM''))"
      by (simp add: textThenImages_def)
    have "candidates textThenImages = Some (?c # []) \<and> content ?c = Some ?ct
              \<and> parts ?ct = Some ([?p1] @ ?p2 # [?p3])
              \<and> (\<forall>q\<in>set [?p1]. inlineData q = None) \<and> inlineData ?p2 = Some ?d"
      by (simp add: textThenImages_def)
    from th[THEN conjunct2, THEN conjunct2, THEN mp, OF clean,
            THEN conjunct2, THEN conjunct1, THEN mp, OF this]
    show ?thesis by (simp add: interpolate_def)
  qed
  have 5: "generateImage (\<lambda>request. Inr textOnly) ''key'' ''a mockup''
             ''data:image/png;base64,AAAA'' = Inl (TextInsteadOfImage ''I cannot draw that.'')"
  proof -
    let ?p1 = "\<lparr> inlineData = None, partText = Some [] \<rparr>"
    let ?p2 = "\<lparr> inlineData = None, partText = Some '' I cannot draw that. '' \<rparr>"
    let ?ct = "\<lparr> parts = Some [?p1, ?p2] \<rparr>"
    let ?c = "\<lparr> content = Some ?ct \<rparr>"
    note th = generateImage_classification_order
      [where backend = "\<lambda>request. Inr textOnly" and response = textOnly
         and apiKey = "''key''" and promptText = "''a mockup''"
         and base64InputImage = "''data:image/png;base64,AAAA''"
         and c = ?c and cs = "[]" and ct = ?ct
         and before = "[?p1]" and part = ?p2 and after = "[]"
         and t = "'' I cannot draw that. ''", OF k refl]
    have clean: "\<forall>f. promptFeedback textOnly = Some f \<longrightarrow>
              (blockReason f = None \<or> blockReason f = Some [])
              \<and> (\<forall>ratings. safetyRatings f = Some ratings \<longrightarrow>
                    (\<forall>q\<in>set ratings. probability q \<noteq> ''HIGH'' \<and> probability q \<noteq> ''MEDIUM''))"
      by (simp add: textOnly_def)
    have "candidates textOnly = Some (?c # []) \<and> content ?c = Some ?ct
              \<and> parts ?ct = Some ([?p1] @ ?p2 # [])
              \<and> (\<forall>q\<in>set ([?p1] @ ?p2 # []). inlineData q = None)
              \<and> (\<forall>q\<in>set [?p1]. partText q = None \<or> partText q = Some [])
              \<and> partText ?p2 = Some '' I cannot draw that. '' \<and> '' I cannot draw that. '' \<noteq> []"
      by (simp add: textOnly_def)
    note r = th[THEN conjunct2, THEN conjunct2, THEN mp, OF clean,
                THEN conjunct2, THEN conjunct2, THEN conjunct1, THEN mp, OF this]
    have t: "trim '' I cannot draw that. '' = ''I cannot draw that.''" by code_simp
    show ?thesis unfolding r t by simp
  qed
  have 6: "generateImage (\<lambda>request. Inr neitherImageNorText) ''key'' ''a mockup''
             ''data:image/png;base64,AAAA'' = Inl NoImageReturned"
  proof -
    let ?p1 = "\<lparr> inlineData = None, partText = None \<rparr>"
    let ?ct = "\<lparr> parts = Some [?p1] \<rparr>"
    let ?c = "\<lparr> content = Some ?ct \<rparr>"
    note th = generateImage_classification_order
      [where backend = "\<lambda>request. Inr neitherImageNorText" and response = neitherImageNorText
         and apiKey = "''key''" and promptText = "''a mockup''"
         and base64InputImage = "''data:image/png;base64,AAAA''"
         and c = ?c and cs = "[]" and ct = ?ct and ps = "[?p1]", OF k refl]
    have clean: "\<forall>f. promptFeedback neitherImageNorText = Some f \<longrightarrow>
              (blockReason f = None \<or> blockReason f = Some [])
              \<and> (\<forall>ratings. safetyRatings f = Some ratings \<longrightarrow>
                    (\<forall>q\<in>set ratings. probability q \<noteq> ''HIGH'' \<and> probability q \<noteq> ''MEDIUM''))"
      by (simp add: neitherImageNorText_def)
    have "candidates neitherImageNorText = Some (?c # []) \<and> content ?c = Some ?ct
              \<and> parts ?ct = Some [?p1] \<and> [?p1] \<noteq> []
              \<and> (\<forall>q\<in>set [?p1]. inlineData q = None \<and> (partText q = None \<or> partText q = Some []))"
      by (simp add: neitherImageNorText_def)
    from th[THEN conjunct2, THEN conjunct2, THEN mp, OF clean,
            THEN conjunct2, THEN conjunct2, THEN conjunct2, THEN mp, OF this]
    show ?thesis by (simp add: neitherImageNorText_def)
  qed
  from 1 2 3 4 5 6 show ?thesis by (intro conjI)
qed

subsection \<open>cloneDesign\<close>

lemma backgroundInstructionRegex_suffix:
  assumes "map toLowerAscii clause
             \<in> {'' on a solid black background'', '' on a solid white background''}"
  shows "backgroundInstructionRegex (rest @ clause) = Some (rest, clause)"
proof -
  from assms have "length (map toLowerAscii clause) = 28" by auto
  then have "length clause = 28" by simp
  then show ?thesis using assms by (simp add: backgroundInstructionRegex_def)
qed

lemma backgroundInstructionRegex_Some:
  assumes "backgroundInstructionRegex s = Some (rest, clause)"
  shows "s = rest @ clause
       \<and> map toLowerAscii clause
           \<in> {'' on a solid black background'', '' on a solid white background''}"
proof -
  let ?n = "length '' on a solid black background''"
  let ?A = "?n \<le> length s \<and>
            map toLowerAscii (drop (length s - ?n) s)
              \<in> set ['' on a solid black background'', '' on a solid white background'']"
  from assms have "(if ?A then Some (take (length s - ?n) s, drop (length s - ?n) s) else None)
                   = Some (rest, clause)"
    unfolding backgroundInstructionRegex_def Let_def .
  from if_Some_eq[OF this]
  have A: ?A and e: "(take (length s - ?n) s, drop (length s - ?n) s) = (rest, clause)"
    by blast+
  from e have r: "rest = take (length s - ?n) s" and c: "clause = drop (length s - ?n) s"
    by blast+
  have "s = rest @ clause" unfolding r c by (rule append_take_drop_id[symmetric])
  moreover have "map toLowerAscii clause
       \<in> set ['' on a solid black background'', '' on a solid white background'']"
    using A unfolding c by blast
  ultimately show ?thesis unfolding list.set by blast
qed

text \<open>
  C3, as the claim states it: a base prompt that ends with "on a solid black background"
  keeps that clause at its end. The pattern of the source starts with a space, so a prompt
  in which another character stands before the clause is not matched: the instructions are
  appended after the clause, and the result does not end with it.
\<close>

theorem composeClonePrompt_counterexample:
  "suffix ''on a solid black background'' ''A red rose,on a solid black background''
   \<and> trim ''make it blue'' \<noteq> []
   \<and> composeClonePrompt ''A red rose,on a solid black background'' (Some ''make it blue'')
       = ''A red rose,on a solid black background'' @ [CHR 0x0A, CHR 0x0A]
         @ ''Additional instructions: make it blue''
   \<and> \<not> suffix ''on a solid black background''
         (composeClonePrompt ''A red rose,on a solid black background'' (Some ''make it blue''))"
proof (intro conjI)
  show "suffix ''on a solid black background'' ''A red rose,on a solid black background''"
    by (simp add: suffix_def)
  show "trim ''make it blue'' \<noteq> []" by code_simp
  show "composeClonePrompt ''A red rose,on a solid black background'' (Some ''make it blue'')
       = ''A red rose,on a solid black background'' @ [CHR 0x0A, CHR 0x0A]
         @ ''Additional instructions: make it blue''" by code_simp
  show "\<not> suffix ''on a solid black background''
         (composeClonePrompt ''A red rose,on a solid black background'' (Some ''make it blue''))"
    by code_simp
qed

text \<open>
  C3, amended. The instructions are not empty after trimming. If the base prompt ends with
  a space followed by "on a solid black background" or "on a solid white background", in
  any case of the letters, the composed prompt is the text before that ending, a period
  unless the text already ends with one, " Additional instructions: ", the instructions,
  and the ending itself, unchanged, as the last text. If the base prompt has no such
  ending, the composed prompt is the base prompt, unchanged, then two line feeds,
  "Additional instructions: " and the instructions.
\<close>

theorem composeClonePrompt_amended:
  assumes "trim instructions \<noteq> []"
  shows "(map toLowerAscii clause
            \<in> {'' on a solid black background'', '' on a solid white background''} \<longrightarrow>
            composeClonePrompt (rest @ clause) (Some instructions) =
              rest @ (if endsWith rest (CHR ''.'') then [] else ''.'')
              @ '' Additional instructions: '' @ instructions @ clause)
       \<and> ((\<forall>before clause'. base = before @ clause' \<longrightarrow>
              map toLowerAscii clause'
                \<notin> {'' on a solid black background'', '' on a solid white background''}) \<longrightarrow>
            composeClonePrompt base (Some instructions) =
              base @ [CHR 0x0A, CHR 0x0A] @ ''Additional instructions: '' @ instructions)"
proof -
  from assms have ne: "instructions \<noteq> []" using trim_Nil by auto
  have cond: "truthy (Some instructions) \<and> length (trim (the (Some instructions))) > 0"
    using assms ne by (simp add: truthy_def)
  show ?thesis
  proof (intro conjI impI)
    assume "map toLowerAscii clause
              \<in> {'' on a solid black background'', '' on a solid white background''}"
    then have "backgroundInstructionRegex (rest @ clause) = Some (rest, clause)"
      by (rule backgroundInstructionRegex_suffix)
    then show "composeClonePrompt (rest @ clause) (Some instructions) =
              rest @ (if endsWith rest (CHR ''.'') then [] else ''.'')
              @ '' Additional instructions: '' @ instructions @ clause"
      using cond by (simp add: composeClonePrompt_def)
  next
    assume no: "\<forall>before clause'. base = before @ clause' \<longrightarrow>
              map toLowerAscii clause'
                \<notin> {'' on a solid black background'', '' on a solid white background''}"
    have "backgroundInstructionRegex base = None"
    proof (cases "backgroundInstructionRegex base")
      case None
      then show ?thesis .
    next
      case (Some p)
      then obtain b c where "backgroundInstructionRegex base = Some (b, c)"
        by (cases p) auto
      note found = backgroundInstructionRegex_Some[OF this]
      from no[rule_format, OF found[THEN conjunct1]] found[THEN conjunct2]
      show ?thesis by (rule notE)
    qed
    then show "composeClonePrompt base (Some instructions) =
              base @ [CHR 0x0A, CHR 0x0A] @ ''Additional instructions: '' @ instructions"
      using cond by (simp add: composeClonePrompt_def)
  qed
qed

lemma no_clause_example:
  "\<forall>before clause'. ''A red rose,on a solid black background'' = before @ clause' \<longrightarrow>
      map toLowerAscii clause'
        \<notin> {'' on a solid black background'', '' on a solid white background''}"
proof (intro allI impI)
  fix before clause'
  assume e: "''A red rose,on a solid black background'' = before @ clause'"
  show "map toLowerAscii clause'
          \<notin> {'' on a solid black background'', '' on a solid white background''}"
  proof
    assume m: "map toLowerAscii clause'
                 \<in> {'' on a solid black background'', '' on a solid white background''}"
    from backgroundInstructionRegex_suffix[OF m, of before] e
    have "backgroundInstructionRegex ''A red rose,on a solid black background''
            = Some (before, clause')"
      by simp
    moreover have "backgroundInstructionRegex ''A red rose,on a solid black background'' = None"
      by code_simp
    ultimately show False by simp
  qed
qed

theorem composeClonePrompt_amended_witness:
  "composeClonePrompt (''A red rose'' @ '' on a solid Black background'') (Some ''make it blue'') =
     ''A red rose. Additional instructions: make it blue on a solid Black background''
   \<and> composeClonePrompt ''A red rose,on a solid black background'' (Some ''make it blue'') =
     ''A red rose,on a solid black background'' @ [CHR 0x0A, CHR 0x0A]
     @ ''Additional instructions: make it blue''"
proof -
  have t: "trim ''make it blue'' \<noteq> []" by code_simp
  have l: "map toLowerAscii '' on a solid Black background''
             \<in> {'' on a solid black background'', '' on a solid white background''}"
    by code_simp
  have d: "\<not> endsWith ''A red rose'' (CHR ''.'')" by (simp add: endsWith_def)
  note th = composeClonePrompt_amended[OF t, of "'' on a solid Black background''" "''A red rose''"
        "''A red rose,on a solid black background''"]
  note a = th[THEN conjunct1, THEN mp, OF l]
  note b = th[THEN conjunct2, THEN mp, OF no_clause_example]
  show ?thesis using a b d by simp
qed

subsection \<open>removeBackground\<close>

text \<open>
  C7, as the claim states it: on a non-success status the message of the error includes the
  raw body of the backend's answer. The service writes the body to the console and throws
  an error whose message carries the status only.
\<close>

theorem removeBackground_message_counterexample:
  "settled (removeBackground failingBrowser ''sk_key'' ''data:image/png;base64,AAAA'')
     = Inl (BackendError 500)
   \<and> errorMessage (BackendError 500) = Some ''Background removal failed. Status: 500''
   \<and> \<not> sublist ''quota exceeded'' ''Background removal failed. Status: 500''"
proof (intro conjI)
  show "settled (removeBackground failingBrowser ''sk_key'' ''data:image/png;base64,AAAA'')
     = Inl (BackendError 500)"
    by (simp add: removeBackground_def base64ToBlob_def failingBrowser_def)
  show "errorMessage (BackendError 500) = Some ''Background removal failed. Status: 500''"
    by code_simp
  show "\<not> sublist ''quota exceeded'' ''Background removal failed. Status: 500''"
    by code_simp
qed

text \<open>
  C7, amended. \<^verbatim>\<open>removeBackground\<close> fails with the missing-credential error, sending
  nothing, when the credential is empty. When the backend answers with a non-success status
  it fails with the backend error of that status, whose message is "Background removal
  failed. Status: " and the status; the raw body of the answer is written to the console,
  not put in the message. Every call sends at most one request.
\<close>

theorem removeBackground_errors:
  "(apiKey = [] \<longrightarrow>
      settled (removeBackground browser apiKey base64Image) = Inl MissingPhotoroomKey
      \<and> errorMessage MissingPhotoroomKey = Some ''Photoroom API key is missing.''
      \<and> requestsSent (removeBackground browser apiKey base64Image) = [])
   \<and> (apiKey \<noteq> []
        \<and> base64ToBlob browser base64Image = Inr bytes
        \<and> fetch browser \<lparr> url = ''https://sdk.photoroom.com/v1/segment'', httpMethod = ''POST'',
                            xApiKey = apiKey, imageFile = bytes,
                            imageFileName = ''design.png'', format = ''png'' \<rparr> = Inr response
        \<and> \<not> ok response \<longrightarrow>
      settled (removeBackground browser apiKey base64Image) = Inl (BackendError (httpStatus response))
      \<and> errorMessage (BackendError (httpStatus response))
          = Some (''Background removal failed. Status: '' @ showNat (httpStatus response))
      \<and> consoleErrors (removeBackground browser apiKey base64Image)
          = [''Photoroom API Error: '' @ body response])
   \<and> length (requestsSent (removeBackground browser apiKey base64Image)) \<le> 1"
  by (auto simp add: removeBackground_def Let_def simp del: showNat.simps split: sum.splits)

theorem removeBackground_errors_witness:
  "settled (removeBackground failingBrowser [] ''data:image/png;base64,AAAA'') = Inl MissingPhotoroomKey
   \<and> settled (removeBackground failingBrowser ''sk_key'' ''data:image/png;base64,AAAA'')
       = Inl (BackendError 500)
   \<and> consoleErrors (removeBackground failingBrowser ''sk_key'' ''data:image/png;base64,AAAA'')
       = [''Photoroom API Error: quota exceeded'']
   \<and> requestsSent (removeBackground failingBrowser ''sk_key'' ''data:image/png;base64,AAAA'')
       = [\<lparr> url = ''https://sdk.photoroom.com/v1/segment'', httpMethod = ''POST'',
            xApiKey = ''sk_key'', imageFile = ''PNG-bytes'',
            imageFileName = ''design.png'', format = ''png'' \<rparr>]"
proof -
  note a = removeBackground_errors[of "[]" failingBrowser "''data:image/png;base64,AAAA''"]
  note b = removeBackground_errors[of "''sk_key''" failingBrowser "''data:image/png;base64,AAAA''"
             "''PNG-bytes''" "\<lparr> ok = False, httpStatus = 500, body = ''quota exceeded'' \<rparr>"]
  have 1: "settled (removeBackground failingBrowser [] ''data:image/png;base64,AAAA'')
             = Inl MissingPhotoroomKey"
    using a by blast
  have 2: "settled (removeBackground failingBrowser ''sk_key'' ''data:image/png;base64,AAAA'')
       = Inl (BackendError 500)
       \<and> consoleErrors (removeBackground failingBrowser ''sk_key'' ''data:image/png;base64,AAAA'')
       = [''Photoroom API Error: quota exceeded'']"
    using b by (simp add: base64ToBlob_def failingBrowser_def)
  have 3: "requestsSent (removeBackground failingBrowser ''sk_key'' ''data:image/png;base64,AAAA'')
       = [\<lparr> url = ''https://sdk.photoroom.com/v1/segment'', httpMethod = ''POST'',
            xApiKey = ''sk_key'', imageFile = ''PNG-bytes'',
            imageFileName = ''design.png'', format = ''png'' \<rparr>]"
    by (simp add: removeBackground_def base64ToBlob_def failingBrowser_def)
  show ?thesis using 1 2 3 by blast
qed

section \<open>Properties of the orchestrator\<close>

lemma applyUpdates_Nil: "applyUpdates [] s = s"
  by (simp add: applyUpdates_def)

lemma applyUpdates_Cons: "applyUpdates (u # us) s = applyUpdates us (u s)"
  by (simp add: applyUpdates_def)

lemma applyUpdates_append: "applyUpdates (us @ vs) s = applyUpdates vs (applyUpdates us s)"
  by (simp add: applyUpdates_def)

lemmas setters =
  setUploadedImage_def setClonedDesign_def setRemovedBgDesign_def setResizedDesign_def
  setMockups_def setMockupsWith_def setIsLoading_def setLoadingMessage_def setError_def
  setProductDetails_def setShowApiKeys_def

lemma statesAlong_append:
  "set (statesAlong s (us @ vs)) =
     set (statesAlong s us) \<union> set (statesAlong (applyUpdates us s) vs)"
proof (induction us arbitrary: s)
  case Nil
  show ?case by (cases vs) (auto simp add: applyUpdates_Nil)
next
  case (Cons u us)
  then show ?case by (simp add: applyUpdates_Cons)
qed

lemma statesAlong_last: "applyUpdates us s \<in> set (statesAlong s us)"
  by (induction us arbitrary: s) (simp_all add: applyUpdates_Nil applyUpdates_Cons)

lemma statesAlong_invariant:
  assumes "I s" and "\<And>u t. u \<in> set us \<Longrightarrow> I t \<Longrightarrow> I (u t)"
  shows "(\<forall>s'\<in>set (statesAlong s us). I s') \<and> I (applyUpdates us s)"
  using assms
proof (induction us arbitrary: s)
  case Nil
  then show ?case by (simp add: applyUpdates_Nil)
next
  case (Cons u us)
  have "I (u s)" using Cons.prems by simp
  then have "(\<forall>s'\<in>set (statesAlong (u s) us). I s') \<and> I (applyUpdates us (u s))"
    using Cons.prems(2) by (intro Cons.IH) simp_all
  then show ?case using Cons.prems(1) by (simp add: applyUpdates_Cons)
qed

lemma runInit_alt:
  "runInit P r =
     [setIsLoading True,
      setError None,
      setProductDetails None,
      setClonedDesign \<lparr> status = PENDING, imageUrl = None \<rparr>,
      setRemovedBgDesign \<lparr> status = IDLE, imageUrl = None \<rparr>,
      setResizedDesign \<lparr> status = IDLE, imageUrl = None \<rparr>,
      setMockups (map (\<lambda>i. \<lparr> status = PENDING, imageUrl = None,
                             mockupId = i, mockupName = name (P i) \<rparr>)
                    (selectedProducts r))]"
  by (simp add: runInit_def)

subsection \<open>The start of a run\<close>



lemma uploadedState_eq:
  "uploadedState =
     \<lparr> uploadedImage = Some ''data:image/png;base64,AAAA'',
       clonedDesign = \<lparr> status = IDLE, imageUrl = None \<rparr>,
       removedBgDesign = \<lparr> status = IDLE, imageUrl = None \<rparr>,
       resizedDesign = \<lparr> status = IDLE, imageUrl = None \<rparr>,
       mockups = [],
       isLoading = False,
       loadingMessage = [],
       error = None,
       selectedProducts = [''tshirt'', ''hoodie'', ''mug'', ''tote''],
       productDetails = None,
       additionalInstructions = [],
       mode = cloner,
       geminiApiKey = ''gemini-key'',
       photoroomApiKey = ''sk_pr_default_a0f75c1bea6776987fcd3790bd047935b9eb5ece'',
       showApiKeys = False \<rparr>"
  by (simp add: uploadedState_def firstState_def initialState_def processImageFile_def
      applyUpdates_def setters)


subsection \<open>The catch block\<close>

text \<open>
  C1. The claim: a stage that reached \<open>SUCCESS\<close> before a later stage failed keeps its
  status and its image. In the run on the state after the first upload where background
  removal succeeds and resizing fails, the background-removed asset is \<open>SUCCESS\<close> with its
  image on the way and \<open>FAILED\<close> without an image at the end: the guard of the catch block
  reads the asset of the render that started the run, which is \<open>IDLE\<close>.
\<close>

theorem resize_failure_drops_removedBg:
  "\<lparr> status = SUCCESS, imageUrl = Some ''data:image/png;base64,CUTOUT'' \<rparr>
      \<in> set (map removedBgDesign (runStates exampleProducts resizeFails uploadedState))
   \<and> removedBgDesign (runResult exampleProducts resizeFails uploadedState)
      = \<lparr> status = FAILED, imageUrl = None \<rparr>"
  by code_simp

text \<open>
  C2. The claim: when a run is over, no asset is left \<open>PENDING\<close>, and a failed clone stage
  leaves the cloned asset \<open>FAILED\<close>. In the run on the state after the first upload where the
  clone stage fails, the run is over (nothing is loading) and the cloned asset is still
  \<open>PENDING\<close>: the guard of the catch block reads the asset of the render that started the
  run, which is \<open>IDLE\<close>.
\<close>

theorem clone_failure_leaves_pending:
  "clonedDesign (runResult exampleProducts cloneFails uploadedState)
      = \<lparr> status = PENDING, imageUrl = None \<rparr>
   \<and> \<not> terminal (status (clonedDesign (runResult exampleProducts cloneFails uploadedState)))
   \<and> isLoading (runResult exampleProducts cloneFails uploadedState) = False"
  by code_simp

subsection \<open>The fan-out\<close>

lemma mockupTask_mockups:
  "mockups (mockupTask P w r z c i p s) =
     map (\<lambda>m. if mockupId m = p
               then settledItem w (geminiApiKey r) z (prompt (P (mockupId m))) c i m else m)
       (mockups s)"
  by (simp add: mockupTask_def settledItem_def setMockupsWith_def split: sum.splits)

lemma settledItem_id:
  "mockupId (settledItem w k z q c i m) = mockupId m"
  by (simp add: settledItem_def split: sum.splits)

lemma mockupTask_others:
  "error (mockupTask P w r z c i p s) = error s"
  "clonedDesign (mockupTask P w r z c i p s) = clonedDesign s"
  "removedBgDesign (mockupTask P w r z c i p s) = removedBgDesign s"
  "resizedDesign (mockupTask P w r z c i p s) = resizedDesign s"
  by (simp_all add: mockupTask_def setMockupsWith_def split: sum.splits)

lemma fanout_others:
  "error (applyUpdates (map (mockupTask P w r z c i) ord) s) = error s
   \<and> clonedDesign (applyUpdates (map (mockupTask P w r z c i) ord) s) = clonedDesign s
   \<and> removedBgDesign (applyUpdates (map (mockupTask P w r z c i) ord) s) = removedBgDesign s
   \<and> resizedDesign (applyUpdates (map (mockupTask P w r z c i) ord) s) = resizedDesign s"
  by (induction ord arbitrary: s)
     (simp_all add: applyUpdates_Nil applyUpdates_Cons mockupTask_others)

lemma fanout_mockups:
  "distinct ord \<Longrightarrow>
   mockups (applyUpdates (map (mockupTask P w r z c i) ord) s) =
     map (\<lambda>m. if mockupId m \<in> set ord
               then settledItem w (geminiApiKey r) z (prompt (P (mockupId m))) c i m else m)
       (mockups s)"
proof (induction ord arbitrary: s)
  case Nil
  then show ?case by (simp add: applyUpdates_Nil)
next
  case (Cons p ps)
  then have d: "distinct ps" and n: "p \<notin> set ps" by auto
  show ?case
    using n by (simp add: applyUpdates_Cons Cons.IH[OF d] mockupTask_mockups settledItem_id)
qed

lemma tryBlock_success:
  assumes "analyzeImageColorCall w (geminiApiKey r) (the (uploadedImage r)) = Inr color"
    and "cloneDesignCall w (geminiApiKey r) (the (uploadedImage r))
           (if mode r = redesign then Some (additionalInstructions r) else None) = Inr cloned"
    and "removeBackgroundCall w (photoroomApiKey r) cloned = Inr cutout"
    and "resizeDesignCall w cutout = Inr resized"
  shows "tryBlock P w r =
     ([setLoadingMessage ''Analyzing color...'',
       setLoadingMessage (if mode r = cloner then ''Cloning design...'' else ''Redesigning...''),
       setClonedDesign \<lparr> status = SUCCESS, imageUrl = Some cloned \<rparr>,
       setLoadingMessage ''Removing background...'',
       setRemovedBgDesign \<lparr> status = PENDING, imageUrl = None \<rparr>,
       setRemovedBgDesign \<lparr> status = SUCCESS, imageUrl = Some cutout \<rparr>,
       setLoadingMessage ''Resizing for print...'',
       setResizedDesign \<lparr> status = PENDING, imageUrl = None \<rparr>,
       setResizedDesign \<lparr> status = SUCCESS, imageUrl = Some resized \<rparr>]
      @ (if length (selectedProducts r) > 0
         then setLoadingMessage ''Creating mockups...''
              # map (mockupTask P w r resized color
                       (if mode r = redesign then Some (additionalInstructions r) else None))
                  (settleOrder w (selectedProducts r))
         else []),
      Normal)"
  using assms by (simp add: tryBlock_def andThen_def Let_def)

text \<open>
  C5. In a run whose critical path succeeds, with no product selected twice and the mockup
  calls settling in any order, the mockups at the end are, for each selected product, an
  item of that product alone: \<open>SUCCESS\<close> with the image of its own call if that call
  resolved, \<open>FAILED\<close> without an image if it rejected. The error of the run stays empty, and
  the three staged assets keep \<open>SUCCESS\<close> and their images.
\<close>

theorem mockup_fanout_isolation:
  assumes key: "geminiApiKey r \<noteq> []" and image: "truthy (uploadedImage r)"
    and analysis: "analyzeImageColorCall w (geminiApiKey r) (the (uploadedImage r)) = Inr color"
    and clone: "cloneDesignCall w (geminiApiKey r) (the (uploadedImage r)) instructions = Inr cloned"
    and instr: "instructions = (if mode r = redesign then Some (additionalInstructions r) else None)"
    and removal: "removeBackgroundCall w (photoroomApiKey r) cloned = Inr cutout"
    and resize: "resizeDesignCall w cutout = Inr resized"
    and selection: "distinct (selectedProducts r)"
    and order: "distinct (settleOrder w (selectedProducts r))"
               "set (settleOrder w (selectedProducts r)) = set (selectedProducts r)"
  shows "mockups (runResult P w r) =
           map (\<lambda>i. case createMockupCall w i (geminiApiKey r) resized (prompt (P i)) color
                            instructions of
                       Inr u \<Rightarrow> \<lparr> status = SUCCESS, imageUrl = Some u,
                                  mockupId = i, mockupName = name (P i) \<rparr>
                     | Inl e \<Rightarrow> \<lparr> status = FAILED, imageUrl = None,
                                  mockupId = i, mockupName = name (P i) \<rparr>)
             (selectedProducts r)
       \<and> error (runResult P w r) = None
       \<and> clonedDesign (runResult P w r) = \<lparr> status = SUCCESS, imageUrl = Some cloned \<rparr>
       \<and> removedBgDesign (runResult P w r) = \<lparr> status = SUCCESS, imageUrl = Some cutout \<rparr>
       \<and> resizedDesign (runResult P w r) = \<lparr> status = SUCCESS, imageUrl = Some resized \<rparr>"
proof -
  note t = tryBlock_success[OF analysis clone[unfolded instr] removal resize, of P]
  have h: "handleGenerateClick P w r = runInit P r @ fst (tryBlock P w r) @ finallyBlock"
    using key image by (simp add: handleGenerateClick_def t)
  show ?thesis
  proof (cases "selectedProducts r = []")
    case True
    then show ?thesis
      unfolding runResult_def h t
      by (simp add: runInit_def finallyBlock_def applyUpdates_def setters)
  next
    case False
    then show ?thesis
      unfolding runResult_def h t
      using order(2)
      by (simp add: runInit_def finallyBlock_def applyUpdates_append applyUpdates_Cons
          applyUpdates_Nil fanout_mockups[OF order(1)] fanout_others setters settledItem_def instr
          split: sum.splits)
  qed
qed

text \<open>Four products, the call for the mug rejects: the three others end \<open>SUCCESS\<close> with
  their own images, the mug \<open>FAILED\<close>, and the run has no error.\<close>

theorem mockup_fanout_isolation_witness:
  "mockups (runResult exampleProducts mugRejects uploadedState) =
     [\<lparr> status = SUCCESS, imageUrl = Some ''data:image/png;base64,MOCKUP-tshirt'',
        mockupId = ''tshirt'', mockupName = ''tshirt'' \<rparr>,
      \<lparr> status = SUCCESS, imageUrl = Some ''data:image/png;base64,MOCKUP-hoodie'',
        mockupId = ''hoodie'', mockupName = ''hoodie'' \<rparr>,
      \<lparr> status = FAILED, imageUrl = None, mockupId = ''mug'', mockupName = ''mug'' \<rparr>,
      \<lparr> status = SUCCESS, imageUrl = Some ''data:image/png;base64,MOCKUP-tote'',
        mockupId = ''tote'', mockupName = ''tote'' \<rparr>]
   \<and> error (runResult exampleProducts mugRejects uploadedState) = None"
proof -
  have m: "selectedProducts uploadedState = [''tshirt'', ''hoodie'', ''mug'', ''tote'']"
    by (simp add: uploadedState_eq)
  have so: "settleOrder mugRejects = rev"
    by (simp add: mugRejects_def allSucceed_def)
  have k: "geminiApiKey uploadedState \<noteq> []" and i: "truthy (uploadedImage uploadedState)"
    by (simp_all add: uploadedState_eq truthy_def)
  have a1: "analyzeImageColorCall mugRejects (geminiApiKey uploadedState)
              (the (uploadedImage uploadedState)) = Inr ''#000000''"
    by (simp add: mugRejects_def allSucceed_def)
  have a2: "cloneDesignCall mugRejects (geminiApiKey uploadedState)
              (the (uploadedImage uploadedState)) None = Inr ''data:image/png;base64,CLONE''"
    by (simp add: mugRejects_def allSucceed_def)
  have a3: "None = (if mode uploadedState = redesign
                    then Some (additionalInstructions uploadedState) else None)"
    by (simp add: uploadedState_eq)
  have a4: "removeBackgroundCall mugRejects (photoroomApiKey uploadedState)
              ''data:image/png;base64,CLONE'' = Inr ''data:image/png;base64,CUTOUT''"
    by (simp add: mugRejects_def allSucceed_def)
  have a5: "resizeDesignCall mugRejects ''data:image/png;base64,CUTOUT''
              = Inr ''data:image/png;base64,PRINT''"
    by (simp add: mugRejects_def allSucceed_def)
  have d: "distinct (selectedProducts uploadedState)"
    unfolding m by simp
  have o1: "distinct (settleOrder mugRejects (selectedProducts uploadedState))"
    unfolding so using d by simp
  have o2: "set (settleOrder mugRejects (selectedProducts uploadedState))
              = set (selectedProducts uploadedState)"
    unfolding so by simp
  note th = mockup_fanout_isolation[OF k i a1 a2 a3 a4 a5 d o1 o2, of exampleProducts]
  have c: "createMockupCall mugRejects =
             (\<lambda>productId apiKey image productPrompt color instructions.
                if productId = ''mug'' then Inl (Some ''API returned an empty response.'')
                else Inr (''data:image/png;base64,MOCKUP-'' @ productId))"
    by (simp add: mugRejects_def allSucceed_def)
  from th[THEN conjunct1] th[THEN conjunct2, THEN conjunct1]
  show ?thesis
    unfolding m c by (simp add: exampleProducts_def)
qed

subsection \<open>The invariant of the data model\<close>

lemma plainOk_iff: "plainOk s \<longleftrightarrow> stateOk s \<and> distinct (selectedProducts s)"
  by (simp add: plainOk_def runOk_def list_all_iff)

lemma runOk_plain: "runOk good s \<Longrightarrow> plainOk s"
  by (simp add: runOk_def plainOk_def list_all_iff)

lemma mockups_map_ok:
  assumes "runOk good s"
    and "\<And>m. assetOk m \<Longrightarrow> (status m = SUCCESS \<longrightarrow> good (mockupId m)) \<Longrightarrow>
              assetOk (f m) \<and> (status (f m) = SUCCESS \<longrightarrow> good (mockupId (f m)))"
  shows "runOk good (setMockupsWith (map f) s)"
proof -
  have "\<forall>m\<in>set (mockups s).
          assetOk (f m) \<and> (status (f m) = SUCCESS \<longrightarrow> good (mockupId (f m)))"
    using assms by (simp add: runOk_def stateOk_def list_all_iff)
  then show ?thesis
    using assms(1) by (simp add: runOk_def stateOk_def list_all_iff setMockupsWith_def)
qed

text \<open>A task that fails leaves the image of its item as it is: the item is not \<open>SUCCESS\<close>,
  because the call for its product is the one that failed, so it has no image.\<close>

lemma mockupTask_ok:
  assumes "runOk (\<lambda>p. \<exists>u. createMockupCall w p (geminiApiKey r) z (prompt (P p)) c i = Inr u) s"
  shows "runOk (\<lambda>p. \<exists>u. createMockupCall w p (geminiApiKey r) z (prompt (P p)) c i = Inr u)
           (mockupTask P w r z c i p s)"
proof (cases "createMockupCall w p (geminiApiKey r) z (prompt (P p)) c i")
  case (Inl e)
  let ?f = "\<lambda>m::Mockup. if mockupId m = p then m\<lparr>status := FAILED\<rparr> else m"
  have "\<And>m. assetOk m \<Longrightarrow>
          (status m = SUCCESS \<longrightarrow>
             (\<exists>u. createMockupCall w (mockupId m) (geminiApiKey r) z (prompt (P (mockupId m))) c i
                     = Inr u)) \<Longrightarrow>
          assetOk (?f m) \<and>
          (status (?f m) = SUCCESS \<longrightarrow>
             (\<exists>u. createMockupCall w (mockupId (?f m)) (geminiApiKey r) z
                     (prompt (P (mockupId (?f m)))) c i = Inr u))"
    using Inl by (auto simp add: assetOk_def)
  with assms have "runOk (\<lambda>p. \<exists>u. createMockupCall w p (geminiApiKey r) z (prompt (P p)) c i = Inr u)
                     (setMockupsWith (map ?f) s)"
    by (rule mockups_map_ok)
  then show ?thesis by (simp add: mockupTask_def Inl)
next
  case (Inr v)
  let ?f = "\<lambda>m::Mockup. if mockupId m = p then m\<lparr>status := SUCCESS, imageUrl := Some v\<rparr> else m"
  have "\<And>m. assetOk m \<Longrightarrow>
          (status m = SUCCESS \<longrightarrow>
             (\<exists>u. createMockupCall w (mockupId m) (geminiApiKey r) z (prompt (P (mockupId m))) c i
                     = Inr u)) \<Longrightarrow>
          assetOk (?f m) \<and>
          (status (?f m) = SUCCESS \<longrightarrow>
             (\<exists>u. createMockupCall w (mockupId (?f m)) (geminiApiKey r) z
                     (prompt (P (mockupId (?f m)))) c i = Inr u))"
    using Inr by (auto simp add: assetOk_def)
  with assms have "runOk (\<lambda>p. \<exists>u. createMockupCall w p (geminiApiKey r) z (prompt (P p)) c i = Inr u)
                     (setMockupsWith (map ?f) s)"
    by (rule mockups_map_ok)
  then show ?thesis by (simp add: mockupTask_def Inr)
qed

lemma plain_setters_ok:
  assumes "runOk good s"
  shows "runOk good (setLoadingMessage m s)"
    and "runOk good (setIsLoading b s)"
    and "runOk good (setError e s)"
    and "runOk good (setShowApiKeys b s)"
    and "runOk good (setClonedDesign \<lparr> status = SUCCESS, imageUrl = Some x \<rparr> s)"
    and "runOk good (setRemovedBgDesign \<lparr> status = SUCCESS, imageUrl = Some x \<rparr> s)"
    and "runOk good (setResizedDesign \<lparr> status = SUCCESS, imageUrl = Some x \<rparr> s)"
    and "st \<noteq> SUCCESS \<Longrightarrow> runOk good (setClonedDesign \<lparr> status = st, imageUrl = None \<rparr> s)"
    and "st \<noteq> SUCCESS \<Longrightarrow> runOk good (setRemovedBgDesign \<lparr> status = st, imageUrl = None \<rparr> s)"
    and "st \<noteq> SUCCESS \<Longrightarrow> runOk good (setResizedDesign \<lparr> status = st, imageUrl = None \<rparr> s)"
  using assms
  by (auto simp add: runOk_def stateOk_def assetOk_def setters list_all_iff)

lemma catch_mockups_ok:
  assumes "runOk good s"
  shows "runOk good
           (setMockupsWith (map (\<lambda>m. if status m = PENDING then m\<lparr>status := FAILED\<rparr> else m)) s)"
  by (rule mockups_map_ok[OF assms]) (auto simp add: assetOk_def)

lemma more_setters_ok:
  assumes "runOk good s"
  shows "runOk good (setProductDetails d s)"
    and "runOk good (setUploadedImage v s)"
    and "runOk good' (setMockups (map (\<lambda>i. \<lparr> status = PENDING, imageUrl = None,
                             mockupId = i, mockupName = n i \<rparr>) xs) s)"
    and "runOk good' (setMockups [] s)"
  using assms
  by (auto simp add: runOk_def stateOk_def assetOk_def setters list_all_iff)

lemma runInit_ok:
  assumes "plainOk s" and "u \<in> set (runInit P r)"
  shows "plainOk (u s)"
  using assms unfolding plainOk_def runInit_alt
  by (auto simp add: plain_setters_ok more_setters_ok)

lemma runInit_result:
  assumes "plainOk s"
  shows "runOk good (applyUpdates (runInit P r) s)"
proof -
  let ?before = "[setIsLoading True, setError None, setProductDetails None,
      setClonedDesign \<lparr> status = PENDING, imageUrl = None \<rparr>,
      setRemovedBgDesign \<lparr> status = IDLE, imageUrl = None \<rparr>,
      setResizedDesign \<lparr> status = IDLE, imageUrl = None \<rparr>]"
  have "runOk (\<lambda>p. True) (applyUpdates ?before s)"
    using assms unfolding plainOk_def
    by (simp add: applyUpdates_Cons applyUpdates_Nil plain_setters_ok more_setters_ok)
  then have "runOk good (setMockups (map (\<lambda>i. \<lparr> status = PENDING, imageUrl = None,
                             mockupId = i, mockupName = name (P i) \<rparr>)
                    (selectedProducts r)) (applyUpdates ?before s))"
    by (rule more_setters_ok(3))
  then show ?thesis
    unfolding runInit_alt by (simp add: applyUpdates_Cons applyUpdates_Nil)
qed

lemma tryBlock_ok:
  "\<exists>good. \<forall>u\<in>set (fst (tryBlock P w r)). \<forall>s. runOk good s \<longrightarrow> runOk good (u s)"
proof (cases "analyzeImageColorCall w (geminiApiKey r) (the (uploadedImage r))")
  case (Inl e)
  then show ?thesis by (auto simp add: tryBlock_def andThen_def plain_setters_ok)
next
  case a: (Inr color)
  let ?i = "if mode r = redesign then Some (additionalInstructions r) else None"
  show ?thesis
  proof (cases "cloneDesignCall w (geminiApiKey r) (the (uploadedImage r)) ?i")
    case (Inl e)
    then show ?thesis using a by (auto simp add: tryBlock_def andThen_def plain_setters_ok)
  next
    case b: (Inr cloned)
    show ?thesis
    proof (cases "removeBackgroundCall w (photoroomApiKey r) cloned")
      case (Inl e)
      then show ?thesis using a b by (auto simp add: tryBlock_def andThen_def plain_setters_ok)
    next
      case c: (Inr cutout)
      show ?thesis
      proof (cases "resizeDesignCall w cutout")
        case (Inl e)
        then show ?thesis
          using a b c by (auto simp add: tryBlock_def andThen_def plain_setters_ok)
      next
        case d: (Inr resized)
        let ?good = "\<lambda>p. \<exists>u. createMockupCall w p (geminiApiKey r) resized (prompt (P p))
                                color ?i = Inr u"
        have "\<forall>u\<in>set (fst (tryBlock P w r)). \<forall>s. runOk ?good s \<longrightarrow> runOk ?good (u s)"
          using a b c d mockupTask_ok[of w r resized P color ?i]
          by (auto simp add: tryBlock_def andThen_def plain_setters_ok)
        then show ?thesis by blast
      qed
    qed
  qed
qed

lemma catchBlock_ok:
  assumes "u \<in> set (catchBlock r e)" and "runOk good s"
  shows "runOk good (u s)"
  using assms
  by (auto simp add: catchBlock_def plain_setters_ok catch_mockups_ok split: if_splits)

lemma finallyBlock_ok:
  assumes "u \<in> set finallyBlock" and "runOk good s"
  shows "runOk good (u s)"
  using assms by (auto simp add: finallyBlock_def plain_setters_ok)

lemma guard_ok:
  assumes "plainOk s"
  shows "plainOk (setError e s)" and "plainOk (setShowApiKeys b s)"
  using assms unfolding plainOk_def by (simp_all add: plain_setters_ok)

lemma handleGenerateClick_ok:
  assumes "plainOk s" and "s' \<in> set (statesAlong s (handleGenerateClick P w r))"
  shows "plainOk s'"
proof -
  consider (nokey) "geminiApiKey r = []"
    | (noimage) "geminiApiKey r \<noteq> []" "\<not> truthy (uploadedImage r)"
    | (run) "geminiApiKey r \<noteq> []" "truthy (uploadedImage r)"
    by blast
  then show ?thesis
  proof cases
    case nokey
    then show ?thesis using assms by (auto simp add: handleGenerateClick_def guard_ok)
  next
    case noimage
    then show ?thesis using assms by (auto simp add: handleGenerateClick_def guard_ok)
  next
    case run
    obtain good where
      g: "\<forall>u\<in>set (fst (tryBlock P w r)). \<forall>s. runOk good s \<longrightarrow> runOk good (u s)"
      using tryBlock_ok by blast
    define rest where "rest =
       (case tryBlock P w r of (us, Normal) \<Rightarrow> us | (us, Thrown err) \<Rightarrow> us @ catchBlock r err)
       @ finallyBlock"
    have h: "handleGenerateClick P w r = runInit P r @ rest"
      using run by (simp add: handleGenerateClick_def rest_def)
    have r: "\<And>u t. u \<in> set rest \<Longrightarrow> runOk good t \<Longrightarrow> runOk good (u t)"
      using g catchBlock_ok finallyBlock_ok unfolding rest_def
      by (cases "tryBlock P w r"; cases "snd (tryBlock P w r)") auto
    from assms(2) consider "s' \<in> set (statesAlong s (runInit P r))"
      | "s' \<in> set (statesAlong (applyUpdates (runInit P r) s) rest)"
      unfolding h statesAlong_append by blast
    then show ?thesis
    proof cases
      case 1
      with statesAlong_invariant[of plainOk s "runInit P r"] assms(1) runInit_ok
      show ?thesis by blast
    next
      case 2
      have "runOk good (applyUpdates (runInit P r) s)"
        using assms(1) by (rule runInit_result)
      with statesAlong_invariant[of "runOk good" "applyUpdates (runInit P r) s" rest] r 2
      have "runOk good s'" by blast
      then show ?thesis by (rule runOk_plain)
    qed
  qed
qed

lemma processImageFile_ok:
  assumes "plainOk s" and "s' \<in> set (statesAlong s (processImageFile fileType base64))"
  shows "plainOk s'"
proof -
  have "\<And>u t. u \<in> set (processImageFile fileType base64) \<Longrightarrow> plainOk t \<Longrightarrow> plainOk (u t)"
    unfolding plainOk_def
    by (auto simp add: processImageFile_def plain_setters_ok more_setters_ok
        split: option.splits if_splits)
  with statesAlong_invariant[of plainOk s "processImageFile fileType base64"] assms
  show ?thesis by blast
qed

lemma reachable_plainOk:
  assumes "reachable P s"
  shows "plainOk s"
  using assms
proof (induction rule: reachable.induct)
  case (first keys k1 k2)
  then show ?case by (simp add: plainOk_iff stateOk_def assetOk_def initialState_def)
next
  case (upload s s' fileType base64)
  then show ?case using processImageFile_ok by blast
next
  case (select s productId)
  then show ?case
    by (auto simp add: plainOk_iff stateOk_def handleProductSelect_def Let_def)
next
  case (other s s')
  then show ?case by (simp add: plainOk_iff stateOk_def)
next
  case (generate s s' w)
  then show ?case using handleGenerateClick_ok unfolding runStates_def by blast
qed

text \<open>
  C9. In every state the component can be in, every state between two setter calls of a
  run included, each of the three staged assets and each mockup has an image exactly when
  its status is \<open>SUCCESS\<close>.
\<close>

theorem reachable_stateOk:
  assumes "reachable P s"
  shows "assetOk (clonedDesign s) \<and> assetOk (removedBgDesign s) \<and> assetOk (resizedDesign s)
       \<and> list_all assetOk (mockups s)"
  using reachable_plainOk[OF assms] by (simp add: plainOk_iff stateOk_def)

text \<open>The state in the middle of the fan-out of the run in which the mug rejects, and the
  state at its end, are reachable.\<close>

theorem reachable_stateOk_witness:
  "assetOk (clonedDesign (runResult exampleProducts mugRejects uploadedState))
   \<and> assetOk (removedBgDesign (runResult exampleProducts mugRejects uploadedState))
   \<and> assetOk (resizedDesign (runResult exampleProducts mugRejects uploadedState))
   \<and> list_all assetOk (mockups (runResult exampleProducts mugRejects uploadedState))"
proof -
  have "reachable exampleProducts firstState"
    unfolding firstState_def by (rule reachable.first) simp
  moreover have "uploadedState
      \<in> set (statesAlong firstState (processImageFile ''image/png'' (Some ''data:image/png;base64,AAAA'')))"
    unfolding uploadedState_def by (rule statesAlong_last)
  ultimately have "reachable exampleProducts uploadedState"
    by (rule reachable.upload)
  moreover have "runResult exampleProducts mugRejects uploadedState
      \<in> set (runStates exampleProducts mugRejects uploadedState)"
    unfolding runResult_def runStates_def by (rule statesAlong_last)
  ultimately have "reachable exampleProducts (runResult exampleProducts mugRejects uploadedState)"
    by (rule reachable.generate)
  then show ?thesis by (rule reachable_stateOk)
qed

end
